theory Spec2Isabelle
  imports Main "HOL-Library.Sublist"
begin

section \<open>ECMAScript regular expressions, as far as the sources use them\<close>

text \<open>
  The debugger rewrites Huff source text with JavaScript regular expressions. This section
  embeds the backtracking matcher of ECMA-262 for the constructs that occur in the two
  source files: character classes, concatenation, the greedy quantifiers \<open>?\<close>, \<open>*\<close>,
  \<open>+\<close>, the lazy \<open>*?\<close>, named groups and positive lookahead. None of the patterns has an
  anchor, a word boundary or a back-reference, so a match at an index only depends on the
  text from that index on; the matcher therefore works on the remaining suffix.

  Strings are lists of 8-bit characters: the model covers texts whose UTF-16 code units lie
  below 256.
\<close>

datatype cclass =
    Lit char        \<comment> \<open>a literal character\<close>
  | WhiteSpace      \<comment> \<open>\<open>\s\<close>\<close>
  | Digit           \<comment> \<open>\<open>\d\<close>, \<open>[\d]\<close>\<close>
  | AnyChar         \<comment> \<open>\<open>[\s\S]\<close>, and \<open>.\<close> under the \<open>s\<close> flag\<close>
  | Dot             \<comment> \<open>\<open>.\<close> without the \<open>s\<close> flag: no line terminator\<close>
  | NotLit char     \<comment> \<open>\<open>[^c]\<close>\<close>

fun cmatch :: "cclass \<Rightarrow> char \<Rightarrow> bool" where
  "cmatch (Lit a) c = (c = a)"
| "cmatch WhiteSpace c = (c \<in> set [CHR 0x09, CHR 0x0A, CHR 0x0B, CHR 0x0C, CHR 0x0D, CHR 0x20, CHR 0xA0])"
| "cmatch Digit c = (c \<in> set ''0123456789'')"
| "cmatch AnyChar c = True"
| "cmatch Dot c = (c \<noteq> CHR 0x0A \<and> c \<noteq> CHR 0x0D)"
| "cmatch (NotLit a) c = (c \<noteq> a)"

datatype regex =
    Chr cclass
  | Cat "regex list"
  | Opt regex              \<comment> \<open>\<open>r?\<close>\<close>
  | Star regex             \<comment> \<open>\<open>r*\<close>\<close>
  | LazyStar regex         \<comment> \<open>\<open>r*?\<close>\<close>
  | Plus regex             \<comment> \<open>\<open>r+\<close>\<close>
  | Group string regex     \<comment> \<open>\<open>(?<name>r)\<close>\<close>
  | Ahead regex            \<comment> \<open>\<open>(?=r)\<close>\<close>

definition str :: "string \<Rightarrow> regex" where
  "str s = Cat (map (\<lambda>c. Chr (Lit c)) s)"

text \<open>The names of the capture groups, in the order of their opening parentheses.\<close>

fun groups :: "regex \<Rightarrow> string list" where
  "groups (Chr p) = []"
| "groups (Cat rs) = concat (map groups rs)"
| "groups (Opt r) = groups r"
| "groups (Star r) = groups r"
| "groups (LazyStar r) = groups r"
| "groups (Plus r) = groups r"
| "groups (Group n r) = n # groups r"
| "groups (Ahead r) = groups r"

type_synonym captures = "(string \<times> string) list"

definition clear :: "string list \<Rightarrow> captures \<Rightarrow> captures" where
  "clear ns c = filter (\<lambda>(n, v). n \<notin> set ns) c"

text \<open>
  The continuation of ECMA-262's matchers is kept as a stack of things still to match.
  \<open>Guard n\<close> is the check of RepeatMatcher that an iteration of a quantifier with minimum
  zero has consumed input (fewer than \<open>n\<close> characters must remain); \<open>Close name s0\<close>
  ends a group that was entered when \<open>s0\<close> remained.
\<close>

datatype item = R regex | Guard nat | Close string string

fun rsize :: "regex \<Rightarrow> nat" where
  "rsize (Chr p) = 1"
| "rsize (Cat rs) = Suc (sum_list (map rsize rs))"
| "rsize (Opt r) = Suc (rsize r)"
| "rsize (Star r) = Suc (rsize r)"
| "rsize (LazyStar r) = Suc (rsize r)"
| "rsize (Plus r) = 2 * rsize r + 2"
| "rsize (Group n r) = rsize r + 2"
| "rsize (Ahead r) = Suc (rsize r)"

fun weight :: "item list \<Rightarrow> nat \<Rightarrow> nat" where
  "weight [] l = 0"
| "weight (R r # k) l = rsize r + weight k l"
| "weight (Guard n # k) l = (if l < n then Suc (weight k l) else 0)"
| "weight (Close n s0 # k) l = Suc (weight k l)"

lemma rsize_pos: "0 < rsize r"
  by (cases r) simp_all

lemma weight_map_R: "weight (map R rs @ k) l = sum_list (map rsize rs) + weight k l"
  by (induction rs) simp_all

function run :: "item list \<Rightarrow> string \<Rightarrow> captures \<Rightarrow> (string \<times> captures) option" where
  "run [] s c = Some (s, c)"
| "run (R (Chr p) # k) s c =
     (case s of [] \<Rightarrow> None | x # xs \<Rightarrow> if cmatch p x then run k xs c else None)"
| "run (R (Cat rs) # k) s c = run (map R rs @ k) s c"
| "run (R (Opt r) # k) s c =
     (case run (R r # Guard (length s) # k) s (clear (groups r) c) of
        Some y \<Rightarrow> Some y
      | None \<Rightarrow> run k s c)"
| "run (R (Star r) # k) s c =
     (case run (R r # Guard (length s) # R (Star r) # k) s (clear (groups r) c) of
        Some y \<Rightarrow> Some y
      | None \<Rightarrow> run k s c)"
| "run (R (LazyStar r) # k) s c =
     (case run k s c of
        Some y \<Rightarrow> Some y
      | None \<Rightarrow> run (R r # Guard (length s) # R (LazyStar r) # k) s (clear (groups r) c))"
| "run (R (Plus r) # k) s c = run (R r # R (Star r) # k) s (clear (groups r) c)"
| "run (R (Group n r) # k) s c = run (R r # Close n s # k) s c"
| "run (R (Ahead r) # k) s c =
     (case run [R r] s c of None \<Rightarrow> None | Some (s', c') \<Rightarrow> run k s c')"
| "run (Guard n # k) s c = (if length s < n then run k s c else None)"
| "run (Close n s0 # k) s c = run k s ((n, take (length s0 - length s) s0) # c)"
  by pat_completeness auto
termination
  by (relation "inv_image (less_than <*lex*> less_than)
        (\<lambda>(k, s, c). (length s, weight k (length s)))")
     (auto simp: weight_map_R rsize_pos)


lemma run_suffix: "run k s c = Some (s', c') \<Longrightarrow> suffix s' s"
proof (induction k s c arbitrary: s' c' rule: run.induct)
  case (2 p k s c)
  then show ?case
    by (cases s) (auto simp: run.simps split: if_splits intro: suffix_ConsI)
next
  case (9 r k s c)
  then show ?case
    by (auto simp: run.simps split: option.splits)
qed (auto simp: run.simps split: option.splits if_splits)

declare run.simps [simp del]

text \<open>
  RegExpBuiltinExec from \<open>lastIndex = 0\<close>: the first index at which the pattern matches,
  tried from left to right. The result splits the text into what precedes the match, the
  match and what follows it, and carries the captures.
\<close>

fun search :: "regex \<Rightarrow> string \<Rightarrow> (string \<times> string \<times> string \<times> captures) option" where
  "search r s =
     (case run [R r] s [] of
        Some (rest, c) \<Rightarrow> Some ([], take (length s - length rest) s, rest, c)
      | None \<Rightarrow>
         (case s of
            [] \<Rightarrow> None
          | x # xs \<Rightarrow> map_option (\<lambda>(pre, m, rest, c). (x # pre, m, rest, c)) (search r xs)))"

declare search.simps [simp del]

text \<open>\<open>RegExp.prototype.test\<close> on a freshly created pattern.\<close>

definition regex_test :: "regex \<Rightarrow> string \<Rightarrow> bool" where
  "regex_test r s = (search r s \<noteq> None)"

lemma search_split: "search r s = Some (pre, m, rest, c) \<Longrightarrow> s = pre @ m @ rest"
proof (induction s arbitrary: pre)
  case Nil
  then show ?case
    by (subst (asm) search.simps) (auto split: option.splits dest: run_suffix)
next
  case (Cons x xs)
  show ?case
  proof (cases "run [R r] (x # xs) []")
    case None
    with Cons.prems obtain pre' where "pre = x # pre'" "search r xs = Some (pre', m, rest, c)"
      by (subst (asm) search.simps) auto
    with Cons.IH show ?thesis by simp
  next
    case (Some y)
    obtain rest' c' where y: "y = (rest', c')" by (cases y)
    from Some y have "suffix rest' (x # xs)" by (auto dest: run_suffix)
    then obtain p where p: "x # xs = p @ rest'" by (auto simp: suffix_def)
    from Cons.prems Some y have "pre = []" "rest = rest'" "m = take (length (x # xs) - length rest') (x # xs)"
      by (subst (asm) search.simps, simp)+
    with p show ?thesis by simp
  qed
qed

subsection \<open>Replacement templates\<close>

text \<open>
  GetSubstitution of ECMA-262: \<open>$$\<close>, \<open>$&\<close>, the text before and after the match,
  \<open>$n\<close>, \<open>$nn\<close> and \<open>$<name>\<close>. \<open>ns\<close> lists the pattern's groups; a pattern
  without named groups has no \<open>groups\<close> object, and \<open>$<\<close> is then literal.
\<close>

definition is_digit :: "char \<Rightarrow> bool" where
  "is_digit c = (c \<in> set ''0123456789'')"

definition digit_val :: "char \<Rightarrow> nat" where
  "digit_val c = of_char c - 48"

definition capture :: "captures \<Rightarrow> string \<Rightarrow> string" where
  "capture c n = (case map_of c n of None \<Rightarrow> [] | Some v \<Rightarrow> v)"

lemma length_tl_dropWhile: "length (dropWhile P ds) - Suc 0 < Suc (Suc (length ds))"
  using length_dropWhile_le [of P ds] by simp

function expand :: "string \<Rightarrow> string \<Rightarrow> string \<Rightarrow> string list \<Rightarrow> captures \<Rightarrow> string \<Rightarrow> string" where
  "expand m pre post ns c [] = []"
| "expand m pre post ns c (t # ts) =
     (if t \<noteq> CHR ''$'' then t # expand m pre post ns c ts
      else case ts of
        [] \<Rightarrow> ''$''
      | d # ds \<Rightarrow>
          if d = CHR ''$'' then CHR ''$'' # expand m pre post ns c ds
          else if d = CHR ''&'' then m @ expand m pre post ns c ds
          else if d = CHR 0x60 then pre @ expand m pre post ns c ds
          else if d = CHR 0x27 then post @ expand m pre post ns c ds
          else if is_digit d then
            (let two = (case ds of [] \<Rightarrow> False | e # es \<Rightarrow> is_digit e);
                 i2 = 10 * digit_val d + digit_val (hd ds);
                 i1 = digit_val d
             in if two \<and> 1 \<le> i2 \<and> i2 \<le> length ns
                then capture c (ns ! (i2 - 1)) @ expand m pre post ns c (tl ds)
                else if 1 \<le> i1 \<and> i1 \<le> length ns
                then capture c (ns ! (i1 - 1)) @ expand m pre post ns c ds
                else CHR ''$'' # expand m pre post ns c (d # ds))
          else if d = CHR ''<'' then
            (if ns = [] \<or> CHR ''>'' \<notin> set ds then CHR ''$'' # expand m pre post ns c (d # ds)
             else capture c (takeWhile (\<lambda>x. x \<noteq> CHR ''>'') ds)
                  @ expand m pre post ns c (tl (dropWhile (\<lambda>x. x \<noteq> CHR ''>'') ds)))
          else CHR ''$'' # expand m pre post ns c (d # ds))"
  by pat_completeness auto
termination
  by (relation "measure (\<lambda>(m, pre, post, ns, c, t). length t)")
     (auto split: list.splits simp: length_tl_dropWhile)

text \<open>
  \<open>String.prototype.replace\<close> with a pattern that has the \<open>g\<close> flag: every match, found
  from left to right after the end of the previous one, is replaced by the expanded
  template; after an empty match the search resumes one character further.
  \<open>seen\<close> is the text that precedes \<open>s\<close> in the whole string.
\<close>

function replace_all :: "regex \<Rightarrow> string \<Rightarrow> string \<Rightarrow> string \<Rightarrow> string" where
  "replace_all r t seen s =
     (case search r s of
        None \<Rightarrow> s
      | Some (pre, m, rest, c) \<Rightarrow>
          pre @ expand m (seen @ pre) rest (groups r) c t @
          (if m = [] then
             (case rest of
                [] \<Rightarrow> []
              | x # xs \<Rightarrow> x # replace_all r t (seen @ pre @ [x]) xs)
           else replace_all r t (seen @ pre @ m) rest))"
  by pat_completeness auto
termination
  by (relation "measure (\<lambda>(r, t, seen, s). length s)")
     (auto dest!: search_split)

declare replace_all.simps [simp del]

text \<open>\<open>String.prototype.replace\<close> with a pattern without the \<open>g\<close> flag: the first match only.\<close>

definition replace_first :: "regex \<Rightarrow> string \<Rightarrow> string \<Rightarrow> string" where
  "replace_first r t s =
     (case search r s of
        None \<Rightarrow> s
      | Some (pre, m, rest, c) \<Rightarrow> pre @ expand m pre rest (groups r) c t @ rest)"

text \<open>
  \<open>String.prototype.replace\<close> with a string as the pattern: the first occurrence of the
  string is replaced; there are no captures.
\<close>

definition replace_string :: "string \<Rightarrow> string \<Rightarrow> string \<Rightarrow> string" where
  "replace_string pat t s =
     (case search (str pat) s of
        None \<Rightarrow> s
      | Some (pre, m, rest, c) \<Rightarrow> pre @ expand m pre rest [] [] t @ rest)"


section \<open>Strings and arrays of the host language\<close>

definition nl :: string where
  "nl = [CHR 0x0A]"

definition tab :: string where
  "tab = [CHR 0x09]"

definition dquote :: char where
  "dquote = CHR 0x22"

text \<open>\<open>String.prototype.split\<close> with a separator of one character.\<close>

fun split_on :: "char \<Rightarrow> string \<Rightarrow> string list" where
  "split_on d [] = [[]]"
| "split_on d (c # cs) =
     (if c = d then [] # split_on d cs
      else case split_on d cs of
             [] \<Rightarrow> [[c]]
           | w # ws \<Rightarrow> (c # w) # ws)"

text \<open>\<open>Array.prototype.join\<close> on an array of strings.\<close>

fun join :: "string \<Rightarrow> string list \<Rightarrow> string" where
  "join sep [] = []"
| "join sep [x] = x"
| "join sep (x # y # ys) = x @ sep @ join sep (y # ys)"

text \<open>
  \<open>Array.prototype.map\<close> with a callback that may throw: the elements are visited in
  order and the first exception ends the traversal.
\<close>

type_synonym exn = string

fun mapE :: "('a \<Rightarrow> exn + 'b) \<Rightarrow> 'a list \<Rightarrow> exn + 'b list" where
  "mapE f [] = Inr []"
| "mapE f (x # xs) =
     (case f x of
        Inl e \<Rightarrow> Inl e
      | Inr y \<Rightarrow> (case mapE f xs of Inl e \<Rightarrow> Inl e | Inr ys \<Rightarrow> Inr (y # ys)))"

section \<open>Data model\<close>

text \<open>The macro object handed over by the editor: its body text and its declared arity.\<close>

record macro =
  body :: string
  takes :: nat
  returns :: nat

text \<open>One storage override; the sources call the two fields \<open>key\<close> and \<open>value\<close>.\<close>

record stateValue =
  stateKey :: string
  stateVal :: string

text \<open>
  The session descriptor \<open>config\<close>: the fields that the two macro debuggers read.
  \<open>mountedDrive\<close> is \<open>None\<close> for JavaScript's \<open>null\<close> or \<open>undefined\<close>.
\<close>

record config =
  hevmContractAddress :: string
  hevmCaller :: string
  statePath :: string
  stateChecked :: bool
  storageChecked :: bool
  stateValues :: "stateValue list"
  calldataChecked :: bool
  calldataValue :: string
  callValueChecked :: bool
  callValue :: string
  tempMacroFilename :: string
  tempHevmCommandFilename :: string
  mountedDrive :: "string option"
  state :: bool

section \<open>The patterns of the sources\<close>

text \<open>\<open>/#include\s?"/\<close> (debugger/macro/macroDebugger.js, line 115; flattenFile).\<close>

definition includeOpenRegex :: regex where
  "includeOpenRegex = Cat [str ''#include'', Opt (Chr WhiteSpace), Chr (Lit dquote)]"

text \<open>\<open>/#include\s?"./\<close> (viewer/macroDebugger.js, line 73).\<close>

definition includeOpenDotRegex :: regex where
  "includeOpenDotRegex = Cat [str ''#include'', Opt (Chr WhiteSpace), Chr (Lit dquote), Chr Dot]"

text \<open>\<open>/#define\s?macro\s?MAIN[\s\S]*?{[\s\S]*?}/gms\<close> (both createCompiledMacro).\<close>

definition removeMainRegex :: regex where
  "removeMainRegex =
     Cat [str ''#define'', Opt (Chr WhiteSpace), str ''macro'', Opt (Chr WhiteSpace), str ''MAIN'',
          LazyStar (Chr AnyChar), Chr (Lit CHR ''{''), LazyStar (Chr AnyChar), Chr (Lit CHR ''}'')]"

text \<open>\<open>/#include\s".*"/gm\<close> (debugger/macro/macroDebugger.js, line 125; flattenFile).\<close>

definition removeIncludeRegex :: regex where
  "removeIncludeRegex =
     Cat [str ''#include'', Chr WhiteSpace, Chr (Lit dquote), Star (Chr Dot), Chr (Lit dquote)]"

text \<open>\<open>/#include\s".*"/gsm\<close> (viewer/macroDebugger.js, line 78): the dot matches every character.\<close>

definition removeIncludeDotAllRegex :: regex where
  "removeIncludeDotAllRegex =
     Cat [str ''#include'', Chr WhiteSpace, Chr (Lit dquote), Star (Chr AnyChar), Chr (Lit dquote)]"

text \<open>\<open>/<.*>/gm\<close> (debugger/macro/macroDebugger.js, line 130).\<close>

definition jumpLabelRegex :: regex where
  "jumpLabelRegex = Cat [Chr (Lit CHR ''<''), Star (Chr Dot), Chr (Lit CHR ''>'')]"

text \<open>
  The arity clause shared by \<open>constructorRegex\<close> and \<open>mainRegex\<close>:
  \<open>\s?\((?<args>[^\)]*)\)\s?=\s?takes\s?\((?<takes>[\d])\)\s?returns\s?\((?<returns>[\d])\)\s?{\<close>.
\<close>

definition arityClause :: "regex list" where
  "arityClause =
     [Opt (Chr WhiteSpace), Chr (Lit CHR ''(''),
      Group ''args'' (Star (Chr (NotLit CHR '')''))), Chr (Lit CHR '')''),
      Opt (Chr WhiteSpace), Chr (Lit CHR ''=''), Opt (Chr WhiteSpace), str ''takes'',
      Opt (Chr WhiteSpace), Chr (Lit CHR ''(''), Group ''takes'' (Chr Digit), Chr (Lit CHR '')''),
      Opt (Chr WhiteSpace), str ''returns'', Opt (Chr WhiteSpace), Chr (Lit CHR ''(''),
      Group ''returns'' (Chr Digit), Chr (Lit CHR '')''), Opt (Chr WhiteSpace), Chr (Lit CHR ''{'')]"

text \<open>
  \<open>/#define\s+macro\s+CONSTRUCTOR<arity clause>(?<body>[\s\S]*?(?=}))/gms\<close>
  (debugger/macro/macroDebugger.js, line 204). The closing brace is looked at, not matched.
\<close>

definition constructorRegex :: regex where
  "constructorRegex =
     Cat ([str ''#define'', Plus (Chr WhiteSpace), str ''macro'', Plus (Chr WhiteSpace),
           str ''CONSTRUCTOR''] @ arityClause @
          [Group ''body'' (Cat [LazyStar (Chr AnyChar), Ahead (Chr (Lit CHR ''}''))])])"


section \<open>The macro isolator: createCompiledMacro\<close>

text \<open>
  What the functions take from their host: \<open>path.join\<close> of Node and a snapshot of the
  file system (\<open>fs.readFileSync(path).toString()\<close>, \<open>Inl\<close> when the read throws).
\<close>

record host =
  path_join :: "string \<Rightarrow> string \<Rightarrow> string"
  readFileSync :: "string \<Rightarrow> exn + string"

text \<open>\<open>currentFile.split("/").slice(0, -1).join("/")\<close>\<close>

definition dirPath :: "string \<Rightarrow> string" where
  "dirPath currentFile = join ''/'' (butlast (split_on CHR ''/'' currentFile))"

text \<open>
  The include resolver of debugger/macro/macroDebugger.js (lines 112 to 118): one path per
  directive, then the current file.
\<close>

definition resolvePaths :: "host \<Rightarrow> string \<Rightarrow> string \<Rightarrow> string list \<Rightarrow> string list" where
  "resolvePaths h cwd currentFile imports =
     map (\<lambda>importPath.
            path_join h (cwd @ ''/'' @ dirPath currentFile)
              (replace_string [dquote] [] (replace_first includeOpenRegex [] importPath)))
         imports
     @ [cwd @ ''/'' @ currentFile]"

text \<open>The same step in viewer/macroDebugger.js (lines 73 and 74): a template string.\<close>

definition viewer_resolvePaths :: "string \<Rightarrow> string \<Rightarrow> string list \<Rightarrow> string list" where
  "viewer_resolvePaths cwd currentFile imports =
     map (\<lambda>importPath.
            cwd @ ''/'' @ dirPath currentFile
            @ replace_string [dquote] [] (replace_first includeOpenDotRegex [] importPath))
         imports
     @ [cwd @ ''/'' @ currentFile]"

text \<open>Jump-label neutralization (debugger/macro/macroDebugger.js, lines 128 to 135).\<close>

definition errorBlock :: string where
  "errorBlock = ''error:'' @ nl @ tab @ ''0x0 dup1 stop''"

definition neutralizeJumpLabels :: "string \<Rightarrow> string" where
  "neutralizeJumpLabels macroBody =
     (if regex_test jumpLabelRegex macroBody
      then replace_all jumpLabelRegex ''error'' [] macroBody @ errorBlock
      else macroBody)"

text \<open>The synthesized entry point: the template literal of lines 138 to 143.\<close>

definition entryPoint :: "string \<Rightarrow> string \<Rightarrow> string" where
  "entryPoint args macroBody =
     ''#define macro MAIN() = takes(0) returns (0) {'' @ nl @
     ''  '' @ args @ nl @
     ''  '' @ macroBody @ nl @
     ''}''"

text \<open>
  createCompiledMacro of debugger/macro/macroDebugger.js. \<open>Array.prototype.reverse\<close>
  reverses the caller's array in place when the template literal is evaluated, after all
  files have been read; the second component of the result is the array as the call leaves
  it. A read that throws leaves the function before that point.
\<close>

definition createCompiledMacro ::
  "host \<Rightarrow> string \<Rightarrow> macro \<Rightarrow> string list \<Rightarrow> string \<Rightarrow> string list \<Rightarrow> (exn + string) \<times> string list" where
  "createCompiledMacro h cwd macro argsObject currentFile imports =
     (let paths = resolvePaths h cwd currentFile imports in
      case mapE (\<lambda>path. map_sum id
                   (\<lambda>text. replace_all removeIncludeRegex [] []
                              (replace_all removeMainRegex [] [] text))
                   (readFileSync h path)) paths of
        Inl e \<Rightarrow> (Inl e, argsObject)
      | Inr files \<Rightarrow>
          (let macroBody = neutralizeJumpLabels (body macro);
               reversed = rev argsObject
           in (Inr (nl @ join nl files @ nl @ entryPoint (join '' '' reversed) macroBody),
               reversed)))"

text \<open>
  createCompiledMacro of viewer/macroDebugger.js (lines 67 to 91): the arguments are
  joined as given, the body is taken as it is, and the array is not touched.
\<close>

definition viewer_createCompiledMacro ::
  "host \<Rightarrow> string \<Rightarrow> macro \<Rightarrow> string list \<Rightarrow> string \<Rightarrow> string list \<Rightarrow> (exn + string) \<times> string list" where
  "viewer_createCompiledMacro h cwd macro argsObject currentFile imports =
     (let paths = viewer_resolvePaths cwd currentFile imports in
      case mapE (\<lambda>path. map_sum id
                   (\<lambda>text. replace_all removeIncludeDotAllRegex [] []
                              (replace_all removeMainRegex [] [] text))
                   (readFileSync h path)) paths of
        Inl e \<Rightarrow> (Inl e, argsObject)
      | Inr files \<Rightarrow>
          (Inr (nl @ join nl files @ nl @ entryPoint (join '' '' argsObject) (body macro)),
           argsObject))"


section \<open>The storage override injector: overrideStorage\<close>

text \<open>The loop of both versions: one line \<open>value key sstore\<close> per override, in order.\<close>

fun overridesText :: "stateValue list \<Rightarrow> string" where
  "overridesText [] = []"
| "overridesText (st # sts) =
     stateVal st @ '' '' @ stateKey st @ '' sstore'' @ nl @ overridesText sts"

text \<open>
  overrideStorage of debugger/macro/macroDebugger.js (lines 199 to 229). The pattern has the
  \<open>g\<close> flag: \<open>replace\<close> starts again at index 0 and replaces every match by the text
  of the first match followed by the overrides, read as a replacement template.
\<close>

definition overrideStorage :: "string \<Rightarrow> config \<Rightarrow> string" where
  "overrideStorage macro config =
     (let overrides = overridesText (stateValues config) in
      case search constructorRegex macro of
        Some (pre, constructorMatch, rest, c) \<Rightarrow>
          replace_all constructorRegex (constructorMatch @ nl @ tab @ overrides) [] macro
      | None \<Rightarrow>
          macro @ nl @ ''#define macro CONSTRUCTOR() = takes(0) returns(0) {'' @ nl @ tab
                @ overrides @ ''}'')"

text \<open>
  overrideStorage of viewer/macroDebugger.js (lines 129 to 140): a constructor is always
  appended.
\<close>

definition viewer_overrideStorage :: "string \<Rightarrow> config \<Rightarrow> string" where
  "viewer_overrideStorage macro config =
     macro @ nl @ ''#define macro CONSTRUCTOR() = takes(0) returns(0) {'' @ nl
           @ overridesText (stateValues config) @ ''}''"

section \<open>The source flattener of the function debugger: flattenFile\<close>


section \<open>Collaborators and observable effects\<close>

text \<open>
  The functions of \<open>debuggerUtils\<close>, \<open>settings\<close>, \<open>keccak\<close>, \<open>child_process\<close> and the
  editor that the orchestrators call are not among the sources. They are parameters:
  \<open>Inl\<close> or \<open>Some\<close> stands for a call that throws. \<open>execSync\<close> also takes the number of
  earlier calls in the session, since the simulator keeps state between two runs.
  \<open>wslMountedDrive\<close> stands for \<open>wslMountedDriveRegex.exec(dir)?.groups?.drive\<close>.
\<close>

record tools =
  isWsl :: bool
  wslMountedDrive :: "string \<Rightarrow> string option"
  keccak256 :: "string \<Rightarrow> string"
  commandExists :: "string \<Rightarrow> bool"
  compileFromFile :: "string \<Rightarrow> string \<Rightarrow> string \<Rightarrow> exn + string"
  deployContract :: "string \<Rightarrow> config \<Rightarrow> string \<Rightarrow> exn + string"
  formatEvenBytes :: "string \<Rightarrow> string"
  writeHevmCommand :: "string \<Rightarrow> string \<Rightarrow> string \<Rightarrow> exn option"
  craftTerminalCommand :: "string \<Rightarrow> config \<Rightarrow> string"
  runInUserTerminal :: "string \<Rightarrow> exn option"
  writeFileSync :: "string \<Rightarrow> string \<Rightarrow> exn option"
  execSync :: "nat \<Rightarrow> string \<Rightarrow> exn + string"

text \<open>The calls a session makes to its collaborators, in the order in which it makes them.\<close>

datatype event =
    ShowErrorMessage string
  | CompileFromFile string string string
  | DeployContract string config string
  | WriteHevmCommand string string string
  | RunInUserTerminal string
  | RegisterError exn string
  | WriteFileSync string string
  | ExecSync string
  | CreateTerminal string
  | SendText string
  | ShowTerminal

text \<open>What an orchestrator returns: \<open>undefined\<close> or \<open>null\<close>.\<close>

datatype result = Undefined | Null

section \<open>The debug command composer\<close>

text \<open>JavaScript's truthiness of \<open>config.mountedDrive\<close>: a non-empty string.\<close>

definition truthy :: "string option \<Rightarrow> bool" where
  "truthy v = (case v of None \<Rightarrow> False | Some x \<Rightarrow> x \<noteq> [])"

text \<open>A string, \<open>null\<close> or \<open>undefined\<close> inside a concatenation or a template.\<close>

definition render :: "string option \<Rightarrow> string \<Rightarrow> string" where
  "render v absent = (case v of None \<Rightarrow> absent | Some x \<Rightarrow> x)"

text \<open>
  The three conditional clauses of \<open>hevmCommand\<close> in debugger/macro/macroDebugger.js (lines 168
  to 178).
\<close>

definition stateClause :: "config \<Rightarrow> string \<Rightarrow> string" where
  "stateClause config cwd =
     (if stateChecked config \<or> storageChecked config
      then ''--state '' @ (if truthy (mountedDrive config)
                           then ''/mnt/'' @ render (mountedDrive config) ''null'' else [])
           @ cwd @ ''/'' @ statePath config
      else [])"

definition calldataClause :: "tools \<Rightarrow> config \<Rightarrow> string" where
  "calldataClause t config =
     (if calldataChecked config then ''--calldata '' @ formatEvenBytes t (calldataValue config) else [])"

definition valueClause :: "config \<Rightarrow> string" where
  "valueClause config = (if callValueChecked config then ''--value '' @ callValue config else [])"

text \<open>
  The template literal of lines 163 to 179. A backslash before a line break is a line
  continuation: the lines are joined, and the indentation of the next line stays.
\<close>

definition hevmCommand :: "tools \<Rightarrow> string \<Rightarrow> config \<Rightarrow> string \<Rightarrow> string" where
  "hevmCommand t runtimeBytecode config cwd =
     ''hevm exec '' @
     ''    --code '' @ runtimeBytecode @ '' '' @
     ''    --address '' @ hevmContractAddress config @ '' '' @
     ''    --caller '' @ hevmCaller config @ '' '' @
     ''    --gas 0xffffffff '' @
     ''    '' @ stateClause config cwd @ '' '' @
     ''    '' @ calldataClause t config @ '' '' @
     ''    '' @ valueClause config @ '' '' @
     ''    --debug''"

text \<open>The command of viewer/macroDebugger.js (lines 111 to 118): no mount point, no value.\<close>

definition viewer_stateClause :: "config \<Rightarrow> string \<Rightarrow> string" where
  "viewer_stateClause config cwd =
     (if stateChecked config \<or> storageChecked config
      then ''--state '' @ cwd @ ''/'' @ statePath config else [])"

definition viewer_command :: "tools \<Rightarrow> string \<Rightarrow> config \<Rightarrow> string \<Rightarrow> string" where
  "viewer_command t runtimeBytecode config cwd =
     ''hevm exec '' @
     ''    --code '' @ runtimeBytecode @ '' '' @
     ''    --address '' @ hevmContractAddress config @ '' '' @
     ''    --caller '' @ hevmCaller config @ '' '' @
     ''    --gas 0xffffffff '' @
     ''    '' @ viewer_stateClause config cwd @ '' '' @
     ''    '' @ calldataClause t config @ '' '' @
     ''    --debug''"

section \<open>The orchestrator of debugger/macro/macroDebugger.js\<close>

text \<open>
  \<open>macro.toString()\<close>: the macro is a plain object (``Macro object - contains takes, returns
  and the macro body text''), so the conversion is that of \<open>Object.prototype\<close>.
\<close>

definition objectToString :: "macro \<Rightarrow> string" where
  "objectToString macro = ''[object Object]''"

text \<open>
  The derived address (lines 57 to 61): the hexadecimal digest, of which \<open>slice(0, 42)\<close>
  keeps the first 42 characters.
\<close>

definition deriveAddress :: "tools \<Rightarrow> macro \<Rightarrow> string" where
  "deriveAddress t macro = take 42 (keccak256 t (objectToString macro))"

text \<open>
  \<open>checkInstallations\<close> is imported from a module that is not among the sources. The one
  installation check that is, \<open>checkHevmInstallation\<close> (second source file, lines 239 to
  252), stands for it: it reports a missing tool to the user and answers no.
\<close>

definition installMessage :: string where
  "installMessage =
     ''Hevm installation required - install here: https://github.com/dapphub/dapptools#installation''"

definition checkInstallations :: "tools \<Rightarrow> event list \<times> bool" where
  "checkInstallations t =
     (if commandExists t ''hevm'' then ([], True) else ([ShowErrorMessage installMessage], False))"

definition macroErrorMessage :: string where
  "macroErrorMessage =
     ''Macro Compilation Error, this is pre-release software, please report this issue to the huff team in the discord''"

text \<open>runMacroDebugger (lines 148 to 188): the events of the call and what it throws.\<close>

definition runMacroDebugger :: "tools \<Rightarrow> string \<Rightarrow> string \<Rightarrow> config \<Rightarrow> string \<Rightarrow> event list \<times> exn option" where
  "runMacroDebugger t bytecode runtimeBytecode config cwd =
     (let command = hevmCommand t runtimeBytecode config cwd;
          written = WriteHevmCommand command (tempHevmCommandFilename config) cwd in
      case writeHevmCommand t command (tempHevmCommandFilename config) cwd of
        Some e \<Rightarrow> ([written], Some e)
      | None \<Rightarrow>
          (let terminalCommand = craftTerminalCommand t cwd config
           in ([written, RunInUserTerminal terminalCommand], runInUserTerminal t terminalCommand)))"

text \<open>
  The start of startMacroDebugger (lines 43 to 62): the mount point is cut off the working
  directory, and the session descriptor is the spread of the defaults and the caller's
  options, for which \<open>options\<close> stands and over which the two computed fields win.
\<close>

definition mountedDriveOf :: "tools \<Rightarrow> string \<Rightarrow> string option" where
  "mountedDriveOf t sourceDirectory =
     (if isWsl t then wslMountedDrive t sourceDirectory else None)"

definition workingDirectory :: "tools \<Rightarrow> string \<Rightarrow> string" where
  "workingDirectory t sourceDirectory =
     replace_string ''/c:'' []
       (if isWsl t
        then replace_string (''/mnt/'' @ render (mountedDriveOf t sourceDirectory) ''undefined'') []
               sourceDirectory
        else sourceDirectory)"

definition sessionConfig :: "tools \<Rightarrow> string \<Rightarrow> macro \<Rightarrow> config \<Rightarrow> config" where
  "sessionConfig t sourceDirectory macro options =
     options\<lparr>mountedDrive := mountedDriveOf t sourceDirectory,
             hevmContractAddress := deriveAddress t macro\<rparr>"

text \<open>
  Lines 65 to 75: the isolated macro, with the storage overrides when they are asked for,
  and the caller's argument array afterwards.
\<close>

definition compilableMacro ::
  "host \<Rightarrow> string \<Rightarrow> macro \<Rightarrow> string list \<Rightarrow> string \<Rightarrow> string list \<Rightarrow> config
     \<Rightarrow> (exn + string) \<times> string list" where
  "compilableMacro h cwd macro argsObject currentFile imports config =
     (case createCompiledMacro h cwd macro argsObject currentFile imports of
        (Inl e, args') \<Rightarrow> (Inl e, args')
      | (Inr compiled, args') \<Rightarrow>
          (Inr (if storageChecked config then overrideStorage compiled config else compiled), args'))"

text \<open>
  startMacroDebugger (lines 33 to 93). The result is the trace of the session, the value
  returned and the caller's argument array afterwards. Everything after the installation
  check runs inside \<open>try\<close>: an exception is handed to \<open>registerError\<close> and the function
  returns \<open>null\<close>.
\<close>

definition startMacroDebugger ::
  "host \<Rightarrow> tools \<Rightarrow> string \<Rightarrow> string \<Rightarrow> string list \<Rightarrow> macro \<Rightarrow> string list \<Rightarrow> config
     \<Rightarrow> event list \<times> result \<times> string list" where
  "startMacroDebugger h t sourceDirectory currentFile imports macro argsObject options =
     (case checkInstallations t of
        (shown, False) \<Rightarrow> (shown, Undefined, argsObject)
      | (shown, True) \<Rightarrow>
          (let cwd = workingDirectory t sourceDirectory;
               config = sessionConfig t sourceDirectory macro options
           in case compilableMacro h cwd macro argsObject currentFile imports config of
                (Inl e, args') \<Rightarrow> (shown @ [RegisterError e macroErrorMessage], Null, args')
              | (Inr source, args') \<Rightarrow>
                  (let compiling = CompileFromFile source (tempMacroFilename config) cwd
                   in case compileFromFile t source (tempMacroFilename config) cwd of
                        Inl e \<Rightarrow> (shown @ [compiling, RegisterError e macroErrorMessage], Null, args')
                      | Inr bytecode \<Rightarrow>
                          (let deploying = DeployContract bytecode config cwd
                           in case deployContract t bytecode config cwd of
                                Inl e \<Rightarrow>
                                  (shown @ [compiling, deploying, RegisterError e macroErrorMessage],
                                   Null, args')
                              | Inr runtimeBytecode \<Rightarrow>
                                  (case runMacroDebugger t bytecode runtimeBytecode config cwd of
                                     (evs, Some e) \<Rightarrow>
                                       (shown @ [compiling, deploying] @ evs
                                          @ [RegisterError e macroErrorMessage], Null, args')
                                   | (evs, None) \<Rightarrow>
                                       (shown @ [compiling, deploying] @ evs, Undefined, args'))))))"

section \<open>The orchestrator of viewer/macroDebugger.js\<close>

text \<open>
  deployContract of the viewer's utilities (second source file, lines 168 to 188): the
  command is written to the cache file and run through \<open>execSync\<close>. \<open>n\<close> counts the
  earlier runs.
\<close>

definition viewer_deployCommand :: "string \<Rightarrow> config \<Rightarrow> string \<Rightarrow> bool \<Rightarrow> string" where
  "viewer_deployCommand bytecode config cwd macro =
     ''hevm exec'' @ nl @
     ''      --code '' @ bytecode @ '' '' @
     ''      --address '' @ hevmContractAddress config @ '' '' @
     ''      --create '' @
     ''      --caller '' @ hevmCaller config @ '' '' @
     ''      --gas 0xffffffff '' @
     ''      '' @ (if state config \<and> \<not> macro then ''--state '' @ cwd @ ''/'' @ statePath config else [])
     @ nl @ ''      ''"

definition viewer_deployContract ::
  "tools \<Rightarrow> nat \<Rightarrow> string \<Rightarrow> config \<Rightarrow> string \<Rightarrow> bool \<Rightarrow> event list \<times> (exn + string)" where
  "viewer_deployContract t n bytecode config cwd macro =
     (let command = viewer_deployCommand bytecode config cwd macro;
          cache = cwd @ ''/cache/hevmtemp'';
          run = [CHR 0x60] @ ''cat '' @ cache @ [CHR 0x60]
      in case writeFileSync t cache command of
           Some e \<Rightarrow> ([WriteFileSync cache command], Inl e)
         | None \<Rightarrow> ([WriteFileSync cache command, ExecSync run], execSync t n run))"

text \<open>runInUserTerminal of the viewer's utilities (lines 197 to 201).\<close>

definition viewer_runInUserTerminal :: "string \<Rightarrow> event list" where
  "viewer_runInUserTerminal command = [CreateTerminal ''Huff debug'', SendText command, ShowTerminal]"

text \<open>
  runMacroDebugger (lines 94 to 126): with the state flag the contract is deployed once
  more, and the result of that run is dropped.
\<close>

definition viewer_runMacroDebugger ::
  "tools \<Rightarrow> string \<Rightarrow> string \<Rightarrow> config \<Rightarrow> string \<Rightarrow> event list \<times> exn option" where
  "viewer_runMacroDebugger t bytecode runtimeBytecode config cwd =
     (case (if stateChecked config then viewer_deployContract t 1 bytecode config cwd False
            else ([], Inr [])) of
        (evs, Inl e) \<Rightarrow> (evs, Some e)
      | (evs, Inr dropped) \<Rightarrow>
          (let command = viewer_command t runtimeBytecode config cwd;
               written = WriteHevmCommand command (tempHevmCommandFilename config) cwd
           in case writeHevmCommand t command (tempHevmCommandFilename config) cwd of
                Some e \<Rightarrow> (evs @ [written], Some e)
              | None \<Rightarrow>
                  (evs @ [written]
                     @ viewer_runInUserTerminal
                         ([CHR 0x60] @ ''cat '' @ cwd @ ''/'' @ tempHevmCommandFilename config @ [CHR 0x60]),
                   None)))"

text \<open>startMacroDebugger (lines 23 to 53): there is no mount point to cut off.\<close>

definition viewer_sessionConfig :: "tools \<Rightarrow> macro \<Rightarrow> config \<Rightarrow> config" where
  "viewer_sessionConfig t macro options = options\<lparr>hevmContractAddress := deriveAddress t macro\<rparr>"

definition viewer_compilableMacro ::
  "host \<Rightarrow> string \<Rightarrow> macro \<Rightarrow> string list \<Rightarrow> string \<Rightarrow> string list \<Rightarrow> config
     \<Rightarrow> (exn + string) \<times> string list" where
  "viewer_compilableMacro h cwd macro argsObject currentFile imports config =
     (case viewer_createCompiledMacro h cwd macro argsObject currentFile imports of
        (Inl e, args') \<Rightarrow> (Inl e, args')
      | (Inr compiled, args') \<Rightarrow>
          (Inr (if storageChecked config then viewer_overrideStorage compiled config else compiled),
           args'))"

definition viewer_startMacroDebugger ::
  "host \<Rightarrow> tools \<Rightarrow> string \<Rightarrow> string \<Rightarrow> string list \<Rightarrow> macro \<Rightarrow> string list \<Rightarrow> config
     \<Rightarrow> event list \<times> result \<times> string list" where
  "viewer_startMacroDebugger h t sourceDirectory currentFile imports macro argsObject options =
     (case checkInstallations t of
        (shown, False) \<Rightarrow> (shown, Undefined, argsObject)
      | (shown, True) \<Rightarrow>
          (let config = viewer_sessionConfig t macro options
           in case viewer_compilableMacro h sourceDirectory macro argsObject currentFile imports config of
                (Inl e, args') \<Rightarrow> (shown @ [RegisterError e macroErrorMessage], Null, args')
              | (Inr source, args') \<Rightarrow>
                  (let compiling = CompileFromFile source (tempMacroFilename config) sourceDirectory
                   in case compileFromFile t source (tempMacroFilename config) sourceDirectory of
                        Inl e \<Rightarrow> (shown @ [compiling, RegisterError e macroErrorMessage], Null, args')
                      | Inr bytecode \<Rightarrow>
                          (case viewer_deployContract t 0 bytecode config sourceDirectory False of
                             (devs, Inl e) \<Rightarrow>
                               (shown @ [compiling] @ devs @ [RegisterError e macroErrorMessage],
                                Null, args')
                           | (devs, Inr runtimeBytecode) \<Rightarrow>
                               (case viewer_runMacroDebugger t bytecode runtimeBytecode config
                                       sourceDirectory of
                                  (evs, Some e) \<Rightarrow>
                                    (shown @ [compiling] @ devs @ evs
                                       @ [RegisterError e macroErrorMessage], Null, args')
                                | (evs, None) \<Rightarrow>
                                    (shown @ [compiling] @ devs @ evs, Undefined, args'))))))"

section \<open>Sample sessions\<close>

text \<open>
  Concrete inputs at which the theorems below are instantiated. \<open>sampleHost\<close> joins
  paths with a slash and holds two files.
\<close>

definition sampleHost :: host where
  "sampleHost =
     \<lparr>path_join = (\<lambda>a b. a @ ''/'' @ b),
      readFileSync = (\<lambda>p.
        if p = ''/w/src/Main.huff''
        then Inr (''#define macro MAIN() = takes(0) returns(0) {'' @ nl @ ''  FOO()'' @ nl @ ''}'')
        else if p = ''/w/src/Utils.huff''
        then Inr ''#define macro FOO() = takes(0) returns(0) { 0x00 }''
        else Inl ''ENOENT'')\<rparr>"

definition sampleMacro :: macro where
  "sampleMacro = \<lparr>body = ''0x01 0x02 add'', takes = 2, returns = 1\<rparr>"

definition sampleImports :: "string list" where
  "sampleImports = [''#include '' @ [dquote] @ ''Utils.huff'' @ [dquote]]"

definition stopMacro :: macro where
  "stopMacro = \<lparr>body = ''stop'', takes = 0, returns = 0\<rparr>"



text \<open>Options with every flag off, and collaborators that all succeed.\<close>

definition sampleOptions :: config where
  "sampleOptions =
     \<lparr>hevmContractAddress = ''0x00'',
      hevmCaller = ''0x0000000000000000000000000000000000000069'',
      statePath = ''cache/huff_debug_hevm_state'',
      stateChecked = False,
      storageChecked = False,
      stateValues = [],
      calldataChecked = False,
      calldataValue = [],
      callValueChecked = False,
      callValue = ''0'',
      tempMacroFilename = ''cache/tempMacro'',
      tempHevmCommandFilename = ''cache/hevmtemp'',
      mountedDrive = None,
      state = False\<rparr>"

definition sampleTools :: tools where
  "sampleTools =
     \<lparr>isWsl = False,
      wslMountedDrive = (\<lambda>dir. None),
      keccak256 = (\<lambda>content. ''c5d2460186f7233c927e7db2dcc703c0e500b653ca82273b7bfad8045d85a470''),
      commandExists = (\<lambda>command. True),
      compileFromFile = (\<lambda>source file cwd. Inr ''0x60008060093d393df3''),
      deployContract = (\<lambda>bytecode config cwd. Inr ''0x00''),
      formatEvenBytes = (\<lambda>bytes. bytes),
      writeHevmCommand = (\<lambda>command file cwd. None),
      craftTerminalCommand = (\<lambda>cwd config. ''hevm-session'' ),
      runInUserTerminal = (\<lambda>command. None),
      writeFileSync = (\<lambda>path content. None),
      execSync = (\<lambda>n command. Inr (if n = 0 then ''0xaa'' else ''0xbb''))\<rparr>"

text \<open>A source text that has a constructor, and two storage overrides.\<close>

definition withConstructor :: string where
  "withConstructor =
     ''#define macro CONSTRUCTOR() = takes(0) returns (0) {'' @ nl @ ''  0x01 0x00 sstore'' @ nl @ ''}'' @ nl
     @ ''#define macro MAIN() = takes(0) returns (0) {'' @ nl @ ''  stop'' @ nl @ ''}''"

definition twoOverrides :: config where
  "twoOverrides =
     sampleOptions\<lparr>storageChecked := True,
                   stateValues := [\<lparr>stateKey = ''0x00'', stateVal = ''0x2a''\<rparr>,
                                   \<lparr>stateKey = ''0x01'', stateVal = ''0x2b''\<rparr>]\<rparr>"

text \<open>The trace events that compose or run the debugger's terminal command.\<close>

fun launches :: "event \<Rightarrow> bool" where
  "launches (WriteHevmCommand command file cwd) = True"
| "launches (RunInUserTerminal command) = True"
| "launches (CreateTerminal name) = True"
| "launches (SendText command) = True"
| "launches ShowTerminal = True"
| "launches ev = False"

text \<open>The trace events that run the simulator in create mode.\<close>

fun deploys :: "event \<Rightarrow> bool" where
  "deploys (DeployContract bytecode config cwd) = True"
| "deploys (ExecSync command) = True"
| "deploys ev = False"

section \<open>Auxiliary notions for the proofs\<close>




text \<open>The last group of \<open>constructorRegex\<close> and \<open>mainRegex\<close>: \<open>(?<n>[\s\S]*?(?=a))\<close>.\<close>

definition bodyGroup :: "string \<Rightarrow> char \<Rightarrow> regex" where
  "bodyGroup n a = Group n (Cat [LazyStar (Chr AnyChar), Ahead (Chr (Lit a))])"

text \<open>
  The forms of the heading that \<open>#define\s?macro\s?MAIN\<close> accepts: each of the two gaps
  is empty or one white-space character.
\<close>

definition mainHeader :: "string \<Rightarrow> string \<Rightarrow> string" where
  "mainHeader w1 w2 = ''#define'' @ w1 @ ''macro'' @ w2 @ ''MAIN''"


text \<open>
  An entry-point heading, however it is spaced: \<open>#define\<close>, \<open>macro\<close> and \<open>MAIN\<close> with any
  amount of white space between them. \<open>headingAt\<close> says that a text begins with one,
  \<open>headings\<close> counts the positions of a text at which one begins, and \<open>quiet u s\<close> says that
  none begins within \<open>u\<close> when \<open>u\<close> is followed by \<open>s\<close>.
\<close>

definition headingAt :: "string \<Rightarrow> bool" where
  "headingAt s =
     (prefix ''#define'' s \<and>
      prefix ''macro'' (dropWhile (cmatch WhiteSpace) (drop 7 s)) \<and>
      prefix ''MAIN''
        (dropWhile (cmatch WhiteSpace) (drop 5 (dropWhile (cmatch WhiteSpace) (drop 7 s)))))"


fun quiet :: "string \<Rightarrow> string \<Rightarrow> bool" where
  "quiet [] s = True"
| "quiet (x # xs) s = (\<not> headingAt (x # xs @ s) \<and> quiet xs s)"




text \<open>
  A source file cut into pieces: an entry-point block as far as the pattern of
  createCompiledMacro removes it (the heading with its two gaps, the text up to the first
  opening brace, the body up to the first closing brace), an include directive (its
  white-space character and the text between its quotes), and the text in between.
\<close>

datatype piece =
    Text string
  | Entry string string string string
  | Include char string

fun pieceText :: "piece \<Rightarrow> string" where
  "pieceText (Text t) = t"
| "pieceText (Entry w1 w2 heading inner) = mainHeader w1 w2 @ heading @ ''{'' @ inner @ ''}''"
| "pieceText (Include w path) = ''#include'' @ [w] @ [dquote] @ path @ [dquote]"

definition content :: "piece list \<Rightarrow> string" where
  "content ps = concat (map pieceText ps)"






section \<open>Properties of the matcher\<close>

lemma clear_Nil [simp]: "clear [] c = c"
  by (simp add: clear_def)













section \<open>Jump-label neutralization\<close>



section \<open>The include resolver\<close>

text \<open>
  Claim C9. The include resolver returns one path per include directive, in the order of
  the directives, followed by the path of the current file: the list has one element more
  than there are directives. This holds for the resolver of debugger/macro/macroDebugger.js
  and for the one of viewer/macroDebugger.js. The paths are absolute when the working
  directory is (for the first resolver: when \<open>path.join\<close> keeps an absolute first
  argument absolute, as Node's does).
\<close>

theorem include_resolver_paths:
  "length (resolvePaths h cwd currentFile imports) = length imports + 1
   \<and> butlast (resolvePaths h cwd currentFile imports)
       = map (\<lambda>importPath. path_join h (cwd @ ''/'' @ dirPath currentFile)
                (replace_string [dquote] [] (replace_first includeOpenRegex [] importPath))) imports
   \<and> last (resolvePaths h cwd currentFile imports) = cwd @ ''/'' @ currentFile
   \<and> length (viewer_resolvePaths cwd currentFile imports) = length imports + 1
   \<and> butlast (viewer_resolvePaths cwd currentFile imports)
       = map (\<lambda>importPath. cwd @ ''/'' @ dirPath currentFile
                @ replace_string [dquote] [] (replace_first includeOpenDotRegex [] importPath)) imports
   \<and> last (viewer_resolvePaths cwd currentFile imports) = cwd @ ''/'' @ currentFile
   \<and> (prefix ''/'' cwd \<longrightarrow>
        list_all (prefix ''/'') (viewer_resolvePaths cwd currentFile imports)
        \<and> ((\<forall>a b. prefix ''/'' a \<longrightarrow> prefix ''/'' (path_join h a b)) \<longrightarrow>
             list_all (prefix ''/'') (resolvePaths h cwd currentFile imports)))"
  by (auto simp: resolvePaths_def viewer_resolvePaths_def list_all_iff prefix_def)

theorem include_resolver_paths_witness:
  "prefix ''/'' ''/w''
   \<and> resolvePaths sampleHost ''/w'' ''src/Main.huff'' sampleImports
       = [''/w/src/Utils.huff'', ''/w/src/Main.huff'']
   \<and> length (resolvePaths sampleHost ''/w'' ''src/Main.huff'' sampleImports) = length sampleImports + 1
   \<and> last (resolvePaths sampleHost ''/w'' ''src/Main.huff'' sampleImports) = ''/w/src/Main.huff''
   \<and> list_all (prefix ''/'') (resolvePaths sampleHost ''/w'' ''src/Main.huff'' sampleImports)
   \<and> list_all (prefix ''/'') (viewer_resolvePaths ''/w'' ''src/Main.huff'' sampleImports)"
proof -
  have abs: "\<forall>a b. prefix ''/'' a \<longrightarrow> prefix ''/'' (path_join sampleHost a b)"
    by (auto simp: sampleHost_def prefix_def)
  have cwd: "prefix ''/'' ''/w''"
    by simp
  have paths: "resolvePaths sampleHost ''/w'' ''src/Main.huff'' sampleImports
                 = [''/w/src/Utils.huff'', ''/w/src/Main.huff'']"
    by code_simp
  from include_resolver_paths [of sampleHost "''/w''" "''src/Main.huff''" sampleImports] abs cwd paths
  show ?thesis by simp
qed

section \<open>The synthesized entry point\<close>

lemma createCompiledMacro_cases:
  "(\<exists>e. createCompiledMacro h cwd macro argsObject currentFile imports = (Inl e, argsObject))
   \<or> (\<exists>files. createCompiledMacro h cwd macro argsObject currentFile imports
         = (Inr (nl @ join nl files @ nl
                  @ entryPoint (join '' '' (rev argsObject)) (neutralizeJumpLabels (body macro))),
            rev argsObject))"
  by (cases "mapE (\<lambda>path. map_sum id
                   (\<lambda>text. replace_all removeIncludeRegex [] []
                              (replace_all removeMainRegex [] [] text))
                   (readFileSync h path)) (resolvePaths h cwd currentFile imports)")
     (auto simp: createCompiledMacro_def Let_def)

lemma rev_distinct_neq:
  assumes "distinct xs" and "2 \<le> length xs"
  shows "rev xs \<noteq> xs"
proof
  assume r: "rev xs = xs"
  from assms(2) obtain x ys where xs: "xs = x # ys" and ys: "ys \<noteq> []"
    by (cases xs; cases "tl xs") auto
  from r have "hd (rev xs) = hd xs" by simp
  with xs ys have "last ys = x" by (simp add: hd_rev)
  with ys have "x \<in> set ys" using last_in_set by metis
  with assms(1) xs show False by simp
qed

text \<open>
  Claim C2, as amended. Whenever createCompiledMacro of debugger/macro/macroDebugger.js
  returns, the text it returns ends with the synthesized entry point, and that entry point
  holds the arguments in reversed order, joined by single spaces, on the line before the
  macro body. (The body is the macro's body after jump-label neutralization, which leaves a
  body without label references as it is.)
\<close>

theorem entry_point_reversed_arguments:
  "fst (createCompiledMacro h cwd macro argsObject currentFile imports) = Inr text \<Longrightarrow>
     suffix (entryPoint (join '' '' (rev argsObject)) (neutralizeJumpLabels (body macro))) text
     \<and> entryPoint (join '' '' (rev argsObject)) (neutralizeJumpLabels (body macro))
         = ''#define macro MAIN() = takes(0) returns (0) {'' @ nl @ ''  ''
           @ join '' '' (rev argsObject) @ nl @ ''  '' @ neutralizeJumpLabels (body macro) @ nl @ ''}''"
  using createCompiledMacro_cases [of h cwd macro argsObject currentFile "imports"]
  by (auto simp: entryPoint_def suffix_def)

theorem entry_point_reversed_arguments_witness:
  "fst (createCompiledMacro sampleHost ''/w'' sampleMacro [''0x05'', ''0x06''] ''src/Main.huff'' sampleImports)
     = Inr (nl @ ''#define macro FOO() = takes(0) returns(0) { 0x00 }'' @ nl @ nl
            @ ''#define macro MAIN() = takes(0) returns (0) {'' @ nl @ ''  0x06 0x05'' @ nl
            @ ''  0x01 0x02 add'' @ nl @ ''}'')
   \<and> suffix (entryPoint ''0x06 0x05'' ''0x01 0x02 add'')
        (nl @ ''#define macro FOO() = takes(0) returns(0) { 0x00 }'' @ nl @ nl
            @ ''#define macro MAIN() = takes(0) returns (0) {'' @ nl @ ''  0x06 0x05'' @ nl
            @ ''  0x01 0x02 add'' @ nl @ ''}'')
   \<and> entryPoint ''0x06 0x05'' ''0x01 0x02 add''
       = ''#define macro MAIN() = takes(0) returns (0) {'' @ nl @ ''  0x06 0x05'' @ nl
            @ ''  0x01 0x02 add'' @ nl @ ''}''"
proof -
  have e: "fst (createCompiledMacro sampleHost ''/w'' sampleMacro [''0x05'', ''0x06''] ''src/Main.huff'' sampleImports)
     = Inr (nl @ ''#define macro FOO() = takes(0) returns(0) { 0x00 }'' @ nl @ nl
            @ ''#define macro MAIN() = takes(0) returns (0) {'' @ nl @ ''  0x06 0x05'' @ nl
            @ ''  0x01 0x02 add'' @ nl @ ''}'')"
    by code_simp
  have j: "join '' '' (rev [''0x05'', ''0x06'']) = ''0x06 0x05''"
    by simp
  have b: "neutralizeJumpLabels (body sampleMacro) = ''0x01 0x02 add''"
    by code_simp
  note t = entry_point_reversed_arguments [OF e]
  from t [THEN conjunct1] have s: "suffix (entryPoint ''0x06 0x05'' ''0x01 0x02 add'')
        (nl @ ''#define macro FOO() = takes(0) returns(0) { 0x00 }'' @ nl @ nl
            @ ''#define macro MAIN() = takes(0) returns (0) {'' @ nl @ ''  0x06 0x05'' @ nl
            @ ''  0x01 0x02 add'' @ nl @ ''}'')"
    by (simp only: j b)
  from t [THEN conjunct2] have q: "entryPoint ''0x06 0x05'' ''0x01 0x02 add''
       = ''#define macro MAIN() = takes(0) returns (0) {'' @ nl @ ''  0x06 0x05'' @ nl
            @ ''  0x01 0x02 add'' @ nl @ ''}''"
    by (simp only: j b append_Cons append_Nil)
  from e s q show ?thesis by blast
qed

text \<open>
  The claim as stated also names createCompiledMacro of viewer/macroDebugger.js, which
  joins the arguments in the order given: for the body \<open>0x01 0x02 add\<close> and the arguments
  \<open>0x05\<close>, \<open>0x06\<close> its entry point reads \<open>0x05 0x06\<close>.
\<close>

theorem viewer_entry_point_not_reversed:
  "fst (viewer_createCompiledMacro sampleHost ''/w'' sampleMacro [''0x05'', ''0x06''] ''src/Main.huff'' [])
     = Inr (nl @ nl @ ''#define macro MAIN() = takes(0) returns (0) {'' @ nl @ ''  0x05 0x06'' @ nl
            @ ''  0x01 0x02 add'' @ nl @ ''}'')
   \<and> \<not> suffix (entryPoint (join '' '' (rev [''0x05'', ''0x06''])) (body sampleMacro))
         (nl @ nl @ ''#define macro MAIN() = takes(0) returns (0) {'' @ nl @ ''  0x05 0x06'' @ nl
            @ ''  0x01 0x02 add'' @ nl @ ''}'')"
  by code_simp

section \<open>The argument array\<close>

text \<open>
  Claim C10. createCompiledMacro of debugger/macro/macroDebugger.js reverses the caller's
  argument array in place: when the call returns, the array holds its former elements in
  reversed order (a call that ends in a read error throws before the reversal and leaves
  the array alone). For an array of at least two elements that are distinct, the array
  after the call differs from the array before it.
\<close>

theorem argument_array_reversed_in_place:
  "snd (createCompiledMacro h cwd macro argsObject currentFile imports)
     = (if isl (fst (createCompiledMacro h cwd macro argsObject currentFile imports))
        then argsObject else rev argsObject)
   \<and> (\<not> isl (fst (createCompiledMacro h cwd macro argsObject currentFile imports))
        \<and> 2 \<le> length argsObject \<and> distinct argsObject
      \<longrightarrow> snd (createCompiledMacro h cwd macro argsObject currentFile imports) \<noteq> argsObject)"
  using createCompiledMacro_cases [of h cwd macro argsObject currentFile "imports"]
        rev_distinct_neq [of argsObject]
  by auto

theorem argument_array_reversed_in_place_witness:
  "\<not> isl (fst (createCompiledMacro sampleHost ''/w'' sampleMacro [''0x05'', ''0x06''] ''src/Main.huff'' sampleImports))
   \<and> 2 \<le> length [''0x05'', ''0x06''] \<and> distinct [''0x05'', ''0x06'']
   \<and> snd (createCompiledMacro sampleHost ''/w'' sampleMacro [''0x05'', ''0x06''] ''src/Main.huff'' sampleImports)
       = [''0x06'', ''0x05'']
   \<and> snd (createCompiledMacro sampleHost ''/w'' sampleMacro [''0x05'', ''0x06''] ''src/Main.huff'' sampleImports)
       \<noteq> [''0x05'', ''0x06'']"
proof -
  have r: "\<not> isl (fst (createCompiledMacro sampleHost ''/w'' sampleMacro [''0x05'', ''0x06''] ''src/Main.huff'' sampleImports))"
    by code_simp
  have d: "2 \<le> length [''0x05'', ''0x06''] \<and> distinct [''0x05'', ''0x06'']"
    by simp
  from argument_array_reversed_in_place
         [of sampleHost "''/w''" sampleMacro "[''0x05'', ''0x06'']" "''src/Main.huff''" sampleImports] r d
  show ?thesis by auto
qed

section \<open>Sessions: what the orchestrators do, step by step\<close>

lemma start_not_installed:
  "\<not> commandExists t ''hevm'' \<Longrightarrow>
     startMacroDebugger h t sourceDirectory currentFile imports macro argsObject options
       = ([ShowErrorMessage installMessage], Undefined, argsObject)"
  by (simp add: startMacroDebugger_def checkInstallations_def)

lemma start_read_fails:
  "commandExists t ''hevm'' \<Longrightarrow>
   compilableMacro h (workingDirectory t sourceDirectory) macro argsObject currentFile imports
     (sessionConfig t sourceDirectory macro options) = (Inl e, args') \<Longrightarrow>
     startMacroDebugger h t sourceDirectory currentFile imports macro argsObject options
       = ([RegisterError e macroErrorMessage], Null, args')"
  by (simp add: startMacroDebugger_def checkInstallations_def Let_def)

lemma start_compile_fails:
  "commandExists t ''hevm'' \<Longrightarrow>
   compilableMacro h (workingDirectory t sourceDirectory) macro argsObject currentFile imports
     (sessionConfig t sourceDirectory macro options) = (Inr source, args') \<Longrightarrow>
   compileFromFile t source (tempMacroFilename (sessionConfig t sourceDirectory macro options))
     (workingDirectory t sourceDirectory) = Inl e \<Longrightarrow>
     startMacroDebugger h t sourceDirectory currentFile imports macro argsObject options
       = ([CompileFromFile source (tempMacroFilename (sessionConfig t sourceDirectory macro options))
             (workingDirectory t sourceDirectory),
           RegisterError e macroErrorMessage], Null, args')"
  by (simp add: startMacroDebugger_def checkInstallations_def Let_def)

lemma start_deploy_fails:
  "commandExists t ''hevm'' \<Longrightarrow>
   compilableMacro h (workingDirectory t sourceDirectory) macro argsObject currentFile imports
     (sessionConfig t sourceDirectory macro options) = (Inr source, args') \<Longrightarrow>
   compileFromFile t source (tempMacroFilename (sessionConfig t sourceDirectory macro options))
     (workingDirectory t sourceDirectory) = Inr bytecode \<Longrightarrow>
   deployContract t bytecode (sessionConfig t sourceDirectory macro options)
     (workingDirectory t sourceDirectory) = Inl e \<Longrightarrow>
     startMacroDebugger h t sourceDirectory currentFile imports macro argsObject options
       = ([CompileFromFile source (tempMacroFilename (sessionConfig t sourceDirectory macro options))
             (workingDirectory t sourceDirectory),
           DeployContract bytecode (sessionConfig t sourceDirectory macro options)
             (workingDirectory t sourceDirectory),
           RegisterError e macroErrorMessage], Null, args')"
  by (simp add: startMacroDebugger_def checkInstallations_def Let_def)

lemma start_launches:
  "commandExists t ''hevm'' \<Longrightarrow>
   compilableMacro h (workingDirectory t sourceDirectory) macro argsObject currentFile imports
     (sessionConfig t sourceDirectory macro options) = (Inr source, args') \<Longrightarrow>
   compileFromFile t source (tempMacroFilename (sessionConfig t sourceDirectory macro options))
     (workingDirectory t sourceDirectory) = Inr bytecode \<Longrightarrow>
   deployContract t bytecode (sessionConfig t sourceDirectory macro options)
     (workingDirectory t sourceDirectory) = Inr runtimeBytecode \<Longrightarrow>
   writeHevmCommand t
     (hevmCommand t runtimeBytecode (sessionConfig t sourceDirectory macro options)
        (workingDirectory t sourceDirectory))
     (tempHevmCommandFilename (sessionConfig t sourceDirectory macro options))
     (workingDirectory t sourceDirectory) = None \<Longrightarrow>
   runInUserTerminal t
     (craftTerminalCommand t (workingDirectory t sourceDirectory)
        (sessionConfig t sourceDirectory macro options)) = None \<Longrightarrow>
     startMacroDebugger h t sourceDirectory currentFile imports macro argsObject options
       = ([CompileFromFile source (tempMacroFilename (sessionConfig t sourceDirectory macro options))
             (workingDirectory t sourceDirectory),
           DeployContract bytecode (sessionConfig t sourceDirectory macro options)
             (workingDirectory t sourceDirectory),
           WriteHevmCommand
             (hevmCommand t runtimeBytecode (sessionConfig t sourceDirectory macro options)
                (workingDirectory t sourceDirectory))
             (tempHevmCommandFilename (sessionConfig t sourceDirectory macro options))
             (workingDirectory t sourceDirectory),
           RunInUserTerminal
             (craftTerminalCommand t (workingDirectory t sourceDirectory)
                (sessionConfig t sourceDirectory macro options))], Undefined, args')"
  by (simp add: startMacroDebugger_def checkInstallations_def runMacroDebugger_def Let_def)


lemma viewer_deploy_no_launch:
  "list_all (\<lambda>ev. \<not> launches ev) (fst (viewer_deployContract t n bytecode config cwd m))"
  by (simp add: viewer_deployContract_def Let_def split: option.splits)

lemma viewer_not_installed:
  "\<not> commandExists t ''hevm'' \<Longrightarrow>
     viewer_startMacroDebugger h t sourceDirectory currentFile imports macro argsObject options
       = ([ShowErrorMessage installMessage], Undefined, argsObject)"
  by (simp add: viewer_startMacroDebugger_def checkInstallations_def)

lemma viewer_read_fails:
  "commandExists t ''hevm'' \<Longrightarrow>
   viewer_compilableMacro h sourceDirectory macro argsObject currentFile imports
     (viewer_sessionConfig t macro options) = (Inl e, args') \<Longrightarrow>
     viewer_startMacroDebugger h t sourceDirectory currentFile imports macro argsObject options
       = ([RegisterError e macroErrorMessage], Null, args')"
  by (simp add: viewer_startMacroDebugger_def checkInstallations_def Let_def)

lemma viewer_compile_fails:
  "commandExists t ''hevm'' \<Longrightarrow>
   viewer_compilableMacro h sourceDirectory macro argsObject currentFile imports
     (viewer_sessionConfig t macro options) = (Inr source, args') \<Longrightarrow>
   compileFromFile t source (tempMacroFilename (viewer_sessionConfig t macro options))
     sourceDirectory = Inl e \<Longrightarrow>
     viewer_startMacroDebugger h t sourceDirectory currentFile imports macro argsObject options
       = ([CompileFromFile source (tempMacroFilename (viewer_sessionConfig t macro options))
             sourceDirectory,
           RegisterError e macroErrorMessage], Null, args')"
  by (simp add: viewer_startMacroDebugger_def checkInstallations_def Let_def)

lemma viewer_first_deploy_fails:
  "commandExists t ''hevm'' \<Longrightarrow>
   viewer_compilableMacro h sourceDirectory macro argsObject currentFile imports
     (viewer_sessionConfig t macro options) = (Inr source, args') \<Longrightarrow>
   compileFromFile t source (tempMacroFilename (viewer_sessionConfig t macro options))
     sourceDirectory = Inr bytecode \<Longrightarrow>
   viewer_deployContract t 0 bytecode (viewer_sessionConfig t macro options) sourceDirectory False
     = (devs, Inl e) \<Longrightarrow>
     viewer_startMacroDebugger h t sourceDirectory currentFile imports macro argsObject options
       = ([CompileFromFile source (tempMacroFilename (viewer_sessionConfig t macro options))
             sourceDirectory] @ devs @ [RegisterError e macroErrorMessage], Null, args')"
  by (simp add: viewer_startMacroDebugger_def checkInstallations_def Let_def)

lemma viewer_second_deploy_fails:
  "commandExists t ''hevm'' \<Longrightarrow>
   viewer_compilableMacro h sourceDirectory macro argsObject currentFile imports
     (viewer_sessionConfig t macro options) = (Inr source, args') \<Longrightarrow>
   compileFromFile t source (tempMacroFilename (viewer_sessionConfig t macro options))
     sourceDirectory = Inr bytecode \<Longrightarrow>
   viewer_deployContract t 0 bytecode (viewer_sessionConfig t macro options) sourceDirectory False
     = (devs, Inr runtimeBytecode) \<Longrightarrow>
   stateChecked options \<Longrightarrow>
   viewer_deployContract t 1 bytecode (viewer_sessionConfig t macro options) sourceDirectory False
     = (devs', Inl e) \<Longrightarrow>
     viewer_startMacroDebugger h t sourceDirectory currentFile imports macro argsObject options
       = ([CompileFromFile source (tempMacroFilename (viewer_sessionConfig t macro options))
             sourceDirectory] @ devs @ devs' @ [RegisterError e macroErrorMessage], Null, args')"
  by (simp add: viewer_startMacroDebugger_def checkInstallations_def Let_def
        viewer_runMacroDebugger_def viewer_sessionConfig_def)

lemma viewer_launches:
  "commandExists t ''hevm'' \<Longrightarrow>
   viewer_compilableMacro h sourceDirectory macro argsObject currentFile imports
     (viewer_sessionConfig t macro options) = (Inr source, args') \<Longrightarrow>
   compileFromFile t source (tempMacroFilename (viewer_sessionConfig t macro options))
     sourceDirectory = Inr bytecode \<Longrightarrow>
   writeFileSync t (sourceDirectory @ ''/cache/hevmtemp'')
     (viewer_deployCommand bytecode (viewer_sessionConfig t macro options) sourceDirectory False) = None \<Longrightarrow>
   execSync t 0 ([CHR 0x60] @ ''cat '' @ sourceDirectory @ ''/cache/hevmtemp'' @ [CHR 0x60])
     = Inr runtimeBytecode \<Longrightarrow>
   (stateChecked options \<longrightarrow>
      \<not> isl (execSync t 1 ([CHR 0x60] @ ''cat '' @ sourceDirectory @ ''/cache/hevmtemp'' @ [CHR 0x60]))) \<Longrightarrow>
   writeHevmCommand t
     (viewer_command t runtimeBytecode (viewer_sessionConfig t macro options) sourceDirectory)
     (tempHevmCommandFilename (viewer_sessionConfig t macro options)) sourceDirectory = None \<Longrightarrow>
     fst (viewer_startMacroDebugger h t sourceDirectory currentFile imports macro argsObject options)
       = [CompileFromFile source (tempMacroFilename (viewer_sessionConfig t macro options)) sourceDirectory,
          WriteFileSync (sourceDirectory @ ''/cache/hevmtemp'')
            (viewer_deployCommand bytecode (viewer_sessionConfig t macro options) sourceDirectory False),
          ExecSync ([CHR 0x60] @ ''cat '' @ sourceDirectory @ ''/cache/hevmtemp'' @ [CHR 0x60])]
         @ (if stateChecked options
            then [WriteFileSync (sourceDirectory @ ''/cache/hevmtemp'')
                    (viewer_deployCommand bytecode (viewer_sessionConfig t macro options) sourceDirectory False),
                  ExecSync ([CHR 0x60] @ ''cat '' @ sourceDirectory @ ''/cache/hevmtemp'' @ [CHR 0x60])]
            else [])
         @ [WriteHevmCommand
              (viewer_command t runtimeBytecode (viewer_sessionConfig t macro options) sourceDirectory)
              (tempHevmCommandFilename (viewer_sessionConfig t macro options)) sourceDirectory,
            CreateTerminal ''Huff debug'',
            SendText ([CHR 0x60] @ ''cat '' @ sourceDirectory @ ''/''
                      @ tempHevmCommandFilename (viewer_sessionConfig t macro options) @ [CHR 0x60]),
            ShowTerminal]"
  by (cases "execSync t 1 ([CHR 0x60] @ ''cat '' @ sourceDirectory @ ''/cache/hevmtemp'' @ [CHR 0x60])")
     (simp_all add: viewer_startMacroDebugger_def checkInstallations_def Let_def
        viewer_runMacroDebugger_def viewer_deployContract_def viewer_runInUserTerminal_def
        viewer_sessionConfig_def)

lemma start_one_deployment:
  "length (filter deploys
     (fst (startMacroDebugger h t sourceDirectory currentFile imports macro argsObject options))) \<le> 1"
  by (simp add: startMacroDebugger_def checkInstallations_def runMacroDebugger_def Let_def
        split: prod.splits sum.splits option.splits)

section \<open>Fatal errors\<close>

text \<open>
  Claim C8. When the installation check answers no, or when reading a file, compiling or
  deploying throws, the session composes and runs no debugger command: its trace has no
  \<open>writeHevmCommand\<close> and no terminal call. A missing installation is reported by the check
  itself and the function returns; every exception is caught, handed to \<open>registerError\<close>
  together with the fixed, human-readable message, and the function returns \<open>null\<close>
  instead of throwing. The first half of the statement is about the orchestrator of
  debugger/macro/macroDebugger.js, the second about the one of viewer/macroDebugger.js,
  whose second deployment (made when the state flag is set) can fail too.
\<close>

theorem fatal_errors_launch_nothing:
  fixes h t sourceDirectory currentFile directives macro argsObject options
    and cwd config session vconfig vsession
  defines "cwd \<equiv> workingDirectory t sourceDirectory"
    and "config \<equiv> sessionConfig t sourceDirectory macro options"
    and "session \<equiv> startMacroDebugger h t sourceDirectory currentFile directives macro argsObject options"
    and "vconfig \<equiv> viewer_sessionConfig t macro options"
    and "vsession \<equiv> viewer_startMacroDebugger h t sourceDirectory currentFile directives macro argsObject options"
  shows
   "(\<not> commandExists t ''hevm''
      \<or> (\<exists>e. fst (compilableMacro h cwd macro argsObject currentFile directives config) = Inl e)
      \<or> (\<exists>source e. fst (compilableMacro h cwd macro argsObject currentFile directives config) = Inr source
             \<and> compileFromFile t source (tempMacroFilename config) cwd = Inl e)
      \<or> (\<exists>source bytecode e.
             fst (compilableMacro h cwd macro argsObject currentFile directives config) = Inr source
             \<and> compileFromFile t source (tempMacroFilename config) cwd = Inr bytecode
             \<and> deployContract t bytecode config cwd = Inl e)
     \<longrightarrow> list_all (\<lambda>ev. \<not> launches ev) (fst session)
         \<and> (if commandExists t ''hevm''
            then (\<exists>e. last (fst session) = RegisterError e macroErrorMessage) \<and> fst (snd session) = Null
            else fst session = [ShowErrorMessage installMessage] \<and> fst (snd session) = Undefined))
    \<and> (\<not> commandExists t ''hevm''
      \<or> (\<exists>e. fst (viewer_compilableMacro h sourceDirectory macro argsObject currentFile directives vconfig) = Inl e)
      \<or> (\<exists>source e.
             fst (viewer_compilableMacro h sourceDirectory macro argsObject currentFile directives vconfig) = Inr source
             \<and> compileFromFile t source (tempMacroFilename vconfig) sourceDirectory = Inl e)
      \<or> (\<exists>source bytecode e.
             fst (viewer_compilableMacro h sourceDirectory macro argsObject currentFile directives vconfig) = Inr source
             \<and> compileFromFile t source (tempMacroFilename vconfig) sourceDirectory = Inr bytecode
             \<and> (snd (viewer_deployContract t 0 bytecode vconfig sourceDirectory False) = Inl e
                \<or> \<not> isl (snd (viewer_deployContract t 0 bytecode vconfig sourceDirectory False))
                   \<and> stateChecked options
                   \<and> snd (viewer_deployContract t 1 bytecode vconfig sourceDirectory False) = Inl e))
     \<longrightarrow> list_all (\<lambda>ev. \<not> launches ev) (fst vsession)
         \<and> (if commandExists t ''hevm''
            then (\<exists>e. last (fst vsession) = RegisterError e macroErrorMessage) \<and> fst (snd vsession) = Null
            else fst vsession = [ShowErrorMessage installMessage] \<and> fst (snd vsession) = Undefined))"
proof (rule conjI; rule impI)
  assume a: "\<not> commandExists t ''hevm''
      \<or> (\<exists>e. fst (compilableMacro h cwd macro argsObject currentFile directives config) = Inl e)
      \<or> (\<exists>source e. fst (compilableMacro h cwd macro argsObject currentFile directives config) = Inr source
             \<and> compileFromFile t source (tempMacroFilename config) cwd = Inl e)
      \<or> (\<exists>source bytecode e.
             fst (compilableMacro h cwd macro argsObject currentFile directives config) = Inr source
             \<and> compileFromFile t source (tempMacroFilename config) cwd = Inr bytecode
             \<and> deployContract t bytecode config cwd = Inl e)"
  obtain r args' where c: "compilableMacro h cwd macro argsObject currentFile directives config = (r, args')"
    by (cases "compilableMacro h cwd macro argsObject currentFile directives config")
  show "list_all (\<lambda>ev. \<not> launches ev) (fst session)
         \<and> (if commandExists t ''hevm''
            then (\<exists>e. last (fst session) = RegisterError e macroErrorMessage) \<and> fst (snd session) = Null
            else fst session = [ShowErrorMessage installMessage] \<and> fst (snd session) = Undefined)"
  proof (cases "commandExists t ''hevm''")
    case False
    then show ?thesis
      by (simp add: session_def start_not_installed)
  next
    case True
    with a c consider
        (read) e where "r = Inl e"
      | (compile) source e where "r = Inr source"
          "compileFromFile t source (tempMacroFilename config) cwd = Inl e"
      | (deploy) source bytecode e where "r = Inr source"
          "compileFromFile t source (tempMacroFilename config) cwd = Inr bytecode"
          "deployContract t bytecode config cwd = Inl e"
      by auto
    then show ?thesis
    proof cases
      case read
      with True c show ?thesis
        by (simp add: session_def start_read_fails [of t h sourceDirectory] cwd_def config_def)
    next
      case compile
      with True c show ?thesis
        by (simp add: session_def start_compile_fails [of t h sourceDirectory] cwd_def config_def)
    next
      case deploy
      with True c show ?thesis
        by (simp add: session_def start_deploy_fails [of t h sourceDirectory] cwd_def config_def)
    qed
  qed
next
  assume a: "\<not> commandExists t ''hevm''
      \<or> (\<exists>e. fst (viewer_compilableMacro h sourceDirectory macro argsObject currentFile directives vconfig) = Inl e)
      \<or> (\<exists>source e.
             fst (viewer_compilableMacro h sourceDirectory macro argsObject currentFile directives vconfig) = Inr source
             \<and> compileFromFile t source (tempMacroFilename vconfig) sourceDirectory = Inl e)
      \<or> (\<exists>source bytecode e.
             fst (viewer_compilableMacro h sourceDirectory macro argsObject currentFile directives vconfig) = Inr source
             \<and> compileFromFile t source (tempMacroFilename vconfig) sourceDirectory = Inr bytecode
             \<and> (snd (viewer_deployContract t 0 bytecode vconfig sourceDirectory False) = Inl e
                \<or> \<not> isl (snd (viewer_deployContract t 0 bytecode vconfig sourceDirectory False))
                   \<and> stateChecked options
                   \<and> snd (viewer_deployContract t 1 bytecode vconfig sourceDirectory False) = Inl e))"
  obtain r args' where c: "viewer_compilableMacro h sourceDirectory macro argsObject currentFile directives vconfig = (r, args')"
    by (cases "viewer_compilableMacro h sourceDirectory macro argsObject currentFile directives vconfig")
  show "list_all (\<lambda>ev. \<not> launches ev) (fst vsession)
         \<and> (if commandExists t ''hevm''
            then (\<exists>e. last (fst vsession) = RegisterError e macroErrorMessage) \<and> fst (snd vsession) = Null
            else fst vsession = [ShowErrorMessage installMessage] \<and> fst (snd vsession) = Undefined)"
  proof (cases "commandExists t ''hevm''")
    case False
    then show ?thesis
      by (simp add: vsession_def viewer_not_installed)
  next
    case True
    with a c consider
        (read) e where "r = Inl e"
      | (compile) source e where "r = Inr source"
          "compileFromFile t source (tempMacroFilename vconfig) sourceDirectory = Inl e"
      | (first) source bytecode e where "r = Inr source"
          "compileFromFile t source (tempMacroFilename vconfig) sourceDirectory = Inr bytecode"
          "snd (viewer_deployContract t 0 bytecode vconfig sourceDirectory False) = Inl e"
      | (second) source bytecode e where "r = Inr source"
          "compileFromFile t source (tempMacroFilename vconfig) sourceDirectory = Inr bytecode"
          "\<not> isl (snd (viewer_deployContract t 0 bytecode vconfig sourceDirectory False))"
          "stateChecked options"
          "snd (viewer_deployContract t 1 bytecode vconfig sourceDirectory False) = Inl e"
      by auto
    then show ?thesis
    proof cases
      case read
      with True c show ?thesis
        by (simp add: vsession_def viewer_read_fails [of t h sourceDirectory] vconfig_def)
    next
      case compile
      with True c show ?thesis
        by (simp add: vsession_def viewer_compile_fails [of t h sourceDirectory] vconfig_def)
    next
      case first
      obtain devs where d: "viewer_deployContract t 0 bytecode vconfig sourceDirectory False = (devs, Inl e)"
        using first(3) by (cases "viewer_deployContract t 0 bytecode vconfig sourceDirectory False") simp
      have "list_all (\<lambda>ev. \<not> launches ev) devs"
        using viewer_deploy_no_launch [of t 0 bytecode vconfig sourceDirectory False] d by simp
      with True c first d show ?thesis
        by (simp add: vsession_def viewer_first_deploy_fails [of t h sourceDirectory] vconfig_def)
    next
      case second
      obtain devs rb where d: "viewer_deployContract t 0 bytecode vconfig sourceDirectory False = (devs, Inr rb)"
        using second(3) by (cases "viewer_deployContract t 0 bytecode vconfig sourceDirectory False"; cases "snd (viewer_deployContract t 0 bytecode vconfig sourceDirectory False)") auto
      obtain devs' where d': "viewer_deployContract t 1 bytecode vconfig sourceDirectory False = (devs', Inl e)"
        using second(5) by (cases "viewer_deployContract t 1 bytecode vconfig sourceDirectory False") simp
      have "list_all (\<lambda>ev. \<not> launches ev) devs" "list_all (\<lambda>ev. \<not> launches ev) devs'"
        using viewer_deploy_no_launch [of t 0 bytecode vconfig sourceDirectory False]
              viewer_deploy_no_launch [of t 1 bytecode vconfig sourceDirectory False] d d' by simp_all
      with True c second d d' show ?thesis
        by (simp add: vsession_def viewer_second_deploy_fails [of t h sourceDirectory] vconfig_def)
    qed
  qed
qed

theorem fatal_errors_launch_nothing_witness:
  "\<not> commandExists (sampleTools\<lparr>commandExists := (\<lambda>command. False)\<rparr>) ''hevm''
   \<and> fst (startMacroDebugger sampleHost (sampleTools\<lparr>commandExists := (\<lambda>command. False)\<rparr>)
             ''/w'' ''src/Main.huff'' sampleImports stopMacro [] sampleOptions)
       = [ShowErrorMessage installMessage]
   \<and> commandExists (sampleTools\<lparr>compileFromFile := (\<lambda>source file cwd. Inl ''huffc failed'')\<rparr>) ''hevm''
   \<and> list_all (\<lambda>ev. \<not> launches ev)
        (fst (startMacroDebugger sampleHost
               (sampleTools\<lparr>compileFromFile := (\<lambda>source file cwd. Inl ''huffc failed'')\<rparr>)
               ''/w'' ''src/Main.huff'' sampleImports stopMacro [] sampleOptions))
   \<and> (\<exists>e. last (fst (startMacroDebugger sampleHost
               (sampleTools\<lparr>compileFromFile := (\<lambda>source file cwd. Inl ''huffc failed'')\<rparr>)
               ''/w'' ''src/Main.huff'' sampleImports stopMacro [] sampleOptions))
            = RegisterError e macroErrorMessage)
   \<and> fst (snd (startMacroDebugger sampleHost
               (sampleTools\<lparr>compileFromFile := (\<lambda>source file cwd. Inl ''huffc failed'')\<rparr>)
               ''/w'' ''src/Main.huff'' sampleImports stopMacro [] sampleOptions)) = Null
   \<and> list_all (\<lambda>ev. \<not> launches ev)
        (fst (viewer_startMacroDebugger sampleHost
               (sampleTools\<lparr>compileFromFile := (\<lambda>source file cwd. Inl ''huffc failed'')\<rparr>)
               ''/w'' ''src/Main.huff'' sampleImports stopMacro [] sampleOptions))"
proof -
  let ?noHevm = "sampleTools\<lparr>commandExists := (\<lambda>command. False)\<rparr>"
  let ?noHuffc = "sampleTools\<lparr>compileFromFile := (\<lambda>source file cwd. Inl ''huffc failed'')\<rparr>"
  have a: "\<not> commandExists ?noHevm ''hevm''"
    by (simp add: sampleTools_def)
  have b: "commandExists ?noHuffc ''hevm''"
    by (simp add: sampleTools_def)
  have c: "\<not> isl (fst (compilableMacro sampleHost (workingDirectory ?noHuffc ''/w'') stopMacro []
              ''src/Main.huff'' sampleImports (sessionConfig ?noHuffc ''/w'' stopMacro sampleOptions)))"
    by code_simp
  have d: "\<exists>source e. fst (compilableMacro sampleHost (workingDirectory ?noHuffc ''/w'') stopMacro []
              ''src/Main.huff'' sampleImports (sessionConfig ?noHuffc ''/w'' stopMacro sampleOptions)) = Inr source
            \<and> compileFromFile ?noHuffc source
                 (tempMacroFilename (sessionConfig ?noHuffc ''/w'' stopMacro sampleOptions))
                 (workingDirectory ?noHuffc ''/w'') = Inl e"
    using c by (cases "fst (compilableMacro sampleHost (workingDirectory ?noHuffc ''/w'') stopMacro []
              ''src/Main.huff'' sampleImports (sessionConfig ?noHuffc ''/w'' stopMacro sampleOptions))")
       (simp_all add: sampleTools_def)
  have "isl (fst (viewer_compilableMacro sampleHost ''/w'' stopMacro []
              ''src/Main.huff'' sampleImports (viewer_sessionConfig ?noHuffc stopMacro sampleOptions)))"
    by code_simp
  then have e: "\<exists>e. fst (viewer_compilableMacro sampleHost ''/w'' stopMacro []
              ''src/Main.huff'' sampleImports (viewer_sessionConfig ?noHuffc stopMacro sampleOptions)) = Inl e"
    by (simp add: isl_def)
  note w1 = fatal_errors_launch_nothing
      [where t = ?noHevm and h = sampleHost and sourceDirectory = "''/w''"
         and currentFile = "''src/Main.huff''" and directives = sampleImports and macro = stopMacro
         and argsObject = "[]" and options = sampleOptions, THEN conjunct1]
  note w2 = fatal_errors_launch_nothing
      [where t = ?noHuffc and h = sampleHost and sourceDirectory = "''/w''"
         and currentFile = "''src/Main.huff''" and directives = sampleImports and macro = stopMacro
         and argsObject = "[]" and options = sampleOptions]
  from w1 a have 1: "fst (startMacroDebugger sampleHost ?noHevm
             ''/w'' ''src/Main.huff'' sampleImports stopMacro [] sampleOptions)
       = [ShowErrorMessage installMessage]"
    by simp
  from w2 [THEN conjunct1] b d have 2: "list_all (\<lambda>ev. \<not> launches ev)
        (fst (startMacroDebugger sampleHost ?noHuffc
               ''/w'' ''src/Main.huff'' sampleImports stopMacro [] sampleOptions))
   \<and> (\<exists>e. last (fst (startMacroDebugger sampleHost ?noHuffc
               ''/w'' ''src/Main.huff'' sampleImports stopMacro [] sampleOptions))
            = RegisterError e macroErrorMessage)
   \<and> fst (snd (startMacroDebugger sampleHost ?noHuffc
               ''/w'' ''src/Main.huff'' sampleImports stopMacro [] sampleOptions)) = Null"
    by simp
  from w2 [THEN conjunct2] b e have 3: "list_all (\<lambda>ev. \<not> launches ev)
        (fst (viewer_startMacroDebugger sampleHost ?noHuffc
               ''/w'' ''src/Main.huff'' sampleImports stopMacro [] sampleOptions))"
    by simp
  from a b 1 2 3 show ?thesis by blast
qed

section \<open>The order of deployment and debugging\<close>

text \<open>
  Claim C6, as amended. The create-mode deployment whose output is debugged is the first
  simulator run of a session, made right after compilation. The orchestrator of
  debugger/macro/macroDebugger.js calls \<open>deployContract\<close> at most once in a session,
  whatever the flags, and passes what that call returns to \<open>--code\<close>. The orchestrator of
  viewer/macroDebugger.js runs the simulator in create mode once, and a second time after
  that exactly when the state flag is set (storage overrides alone do not cause it); the
  debug command is written after both runs and holds the output of the first one.
\<close>

theorem debugged_code_is_first_deployment:
  fixes h t sourceDirectory currentFile directives macro argsObject options
    and cwd config session vconfig vsession cache run
  defines "cwd \<equiv> workingDirectory t sourceDirectory"
    and "config \<equiv> sessionConfig t sourceDirectory macro options"
    and "session \<equiv> startMacroDebugger h t sourceDirectory currentFile directives macro argsObject options"
    and "vconfig \<equiv> viewer_sessionConfig t macro options"
    and "vsession \<equiv> viewer_startMacroDebugger h t sourceDirectory currentFile directives macro argsObject options"
    and "cache \<equiv> sourceDirectory @ ''/cache/hevmtemp''"
    and "run \<equiv> [CHR 0x60] @ ''cat '' @ sourceDirectory @ ''/cache/hevmtemp'' @ [CHR 0x60]"
  shows
   "length (filter deploys (fst session)) \<le> 1
    \<and> (commandExists t ''hevm''
       \<and> fst (compilableMacro h cwd macro argsObject currentFile directives config) = Inr source
       \<and> compileFromFile t source (tempMacroFilename config) cwd = Inr bytecode
       \<and> deployContract t bytecode config cwd = Inr runtimeBytecode
       \<and> writeHevmCommand t (hevmCommand t runtimeBytecode config cwd) (tempHevmCommandFilename config) cwd = None
       \<and> runInUserTerminal t (craftTerminalCommand t cwd config) = None
      \<longrightarrow> fst session
           = [CompileFromFile source (tempMacroFilename config) cwd,
              DeployContract bytecode config cwd,
              WriteHevmCommand (hevmCommand t runtimeBytecode config cwd) (tempHevmCommandFilename config) cwd,
              RunInUserTerminal (craftTerminalCommand t cwd config)])
    \<and> (commandExists t ''hevm''
       \<and> fst (viewer_compilableMacro h sourceDirectory macro argsObject currentFile directives vconfig) = Inr source
       \<and> compileFromFile t source (tempMacroFilename vconfig) sourceDirectory = Inr bytecode
       \<and> writeFileSync t cache (viewer_deployCommand bytecode vconfig sourceDirectory False) = None
       \<and> execSync t 0 run = Inr runtimeBytecode
       \<and> (stateChecked options \<longrightarrow> \<not> isl (execSync t 1 run))
       \<and> writeHevmCommand t (viewer_command t runtimeBytecode vconfig sourceDirectory)
            (tempHevmCommandFilename vconfig) sourceDirectory = None
      \<longrightarrow> fst vsession
           = [CompileFromFile source (tempMacroFilename vconfig) sourceDirectory,
              WriteFileSync cache (viewer_deployCommand bytecode vconfig sourceDirectory False),
              ExecSync run]
             @ (if stateChecked options
                then [WriteFileSync cache (viewer_deployCommand bytecode vconfig sourceDirectory False),
                      ExecSync run]
                else [])
             @ [WriteHevmCommand (viewer_command t runtimeBytecode vconfig sourceDirectory)
                  (tempHevmCommandFilename vconfig) sourceDirectory,
                CreateTerminal ''Huff debug'',
                SendText ([CHR 0x60] @ ''cat '' @ sourceDirectory @ ''/''
                          @ tempHevmCommandFilename vconfig @ [CHR 0x60]),
                ShowTerminal])"
proof (intro conjI)
  show "length (filter deploys (fst session)) \<le> 1"
    unfolding session_def by (rule start_one_deployment)
next
  show "commandExists t ''hevm''
       \<and> fst (compilableMacro h cwd macro argsObject currentFile directives config) = Inr source
       \<and> compileFromFile t source (tempMacroFilename config) cwd = Inr bytecode
       \<and> deployContract t bytecode config cwd = Inr runtimeBytecode
       \<and> writeHevmCommand t (hevmCommand t runtimeBytecode config cwd) (tempHevmCommandFilename config) cwd = None
       \<and> runInUserTerminal t (craftTerminalCommand t cwd config) = None
      \<longrightarrow> fst session
           = [CompileFromFile source (tempMacroFilename config) cwd,
              DeployContract bytecode config cwd,
              WriteHevmCommand (hevmCommand t runtimeBytecode config cwd) (tempHevmCommandFilename config) cwd,
              RunInUserTerminal (craftTerminalCommand t cwd config)]"
  proof (rule impI)
    assume a: "commandExists t ''hevm''
       \<and> fst (compilableMacro h cwd macro argsObject currentFile directives config) = Inr source
       \<and> compileFromFile t source (tempMacroFilename config) cwd = Inr bytecode
       \<and> deployContract t bytecode config cwd = Inr runtimeBytecode
       \<and> writeHevmCommand t (hevmCommand t runtimeBytecode config cwd) (tempHevmCommandFilename config) cwd = None
       \<and> runInUserTerminal t (craftTerminalCommand t cwd config) = None"
    obtain args' where c: "compilableMacro h cwd macro argsObject currentFile directives config = (Inr source, args')"
      using a by (cases "compilableMacro h cwd macro argsObject currentFile directives config") auto
    from a c show "fst session
           = [CompileFromFile source (tempMacroFilename config) cwd,
              DeployContract bytecode config cwd,
              WriteHevmCommand (hevmCommand t runtimeBytecode config cwd) (tempHevmCommandFilename config) cwd,
              RunInUserTerminal (craftTerminalCommand t cwd config)]"
      unfolding session_def cwd_def config_def
      by (simp add: start_launches [of t h sourceDirectory])
  qed
next
  show "commandExists t ''hevm''
       \<and> fst (viewer_compilableMacro h sourceDirectory macro argsObject currentFile directives vconfig) = Inr source
       \<and> compileFromFile t source (tempMacroFilename vconfig) sourceDirectory = Inr bytecode
       \<and> writeFileSync t cache (viewer_deployCommand bytecode vconfig sourceDirectory False) = None
       \<and> execSync t 0 run = Inr runtimeBytecode
       \<and> (stateChecked options \<longrightarrow> \<not> isl (execSync t 1 run))
       \<and> writeHevmCommand t (viewer_command t runtimeBytecode vconfig sourceDirectory)
            (tempHevmCommandFilename vconfig) sourceDirectory = None
      \<longrightarrow> fst vsession
           = [CompileFromFile source (tempMacroFilename vconfig) sourceDirectory,
              WriteFileSync cache (viewer_deployCommand bytecode vconfig sourceDirectory False),
              ExecSync run]
             @ (if stateChecked options
                then [WriteFileSync cache (viewer_deployCommand bytecode vconfig sourceDirectory False),
                      ExecSync run]
                else [])
             @ [WriteHevmCommand (viewer_command t runtimeBytecode vconfig sourceDirectory)
                  (tempHevmCommandFilename vconfig) sourceDirectory,
                CreateTerminal ''Huff debug'',
                SendText ([CHR 0x60] @ ''cat '' @ sourceDirectory @ ''/''
                          @ tempHevmCommandFilename vconfig @ [CHR 0x60]),
                ShowTerminal]"
  proof (rule impI)
    assume a: "commandExists t ''hevm''
       \<and> fst (viewer_compilableMacro h sourceDirectory macro argsObject currentFile directives vconfig) = Inr source
       \<and> compileFromFile t source (tempMacroFilename vconfig) sourceDirectory = Inr bytecode
       \<and> writeFileSync t cache (viewer_deployCommand bytecode vconfig sourceDirectory False) = None
       \<and> execSync t 0 run = Inr runtimeBytecode
       \<and> (stateChecked options \<longrightarrow> \<not> isl (execSync t 1 run))
       \<and> writeHevmCommand t (viewer_command t runtimeBytecode vconfig sourceDirectory)
            (tempHevmCommandFilename vconfig) sourceDirectory = None"
    obtain args' where c: "viewer_compilableMacro h sourceDirectory macro argsObject currentFile directives vconfig = (Inr source, args')"
      using a by (cases "viewer_compilableMacro h sourceDirectory macro argsObject currentFile directives vconfig") auto
    from a c show "fst vsession
           = [CompileFromFile source (tempMacroFilename vconfig) sourceDirectory,
              WriteFileSync cache (viewer_deployCommand bytecode vconfig sourceDirectory False),
              ExecSync run]
             @ (if stateChecked options
                then [WriteFileSync cache (viewer_deployCommand bytecode vconfig sourceDirectory False),
                      ExecSync run]
                else [])
             @ [WriteHevmCommand (viewer_command t runtimeBytecode vconfig sourceDirectory)
                  (tempHevmCommandFilename vconfig) sourceDirectory,
                CreateTerminal ''Huff debug'',
                SendText ([CHR 0x60] @ ''cat '' @ sourceDirectory @ ''/''
                          @ tempHevmCommandFilename vconfig @ [CHR 0x60]),
                ShowTerminal]"
      unfolding vsession_def vconfig_def cache_def run_def
      using viewer_launches [of t h sourceDirectory macro argsObject currentFile directives options source args' bytecode runtimeBytecode]
      by simp
  qed
qed

theorem debugged_code_is_first_deployment_witness:
  "fst (startMacroDebugger sampleHost sampleTools ''/w'' ''src/Main.huff'' sampleImports stopMacro []
          sampleOptions)
     = [CompileFromFile
          (nl @ ''#define macro FOO() = takes(0) returns(0) { 0x00 }'' @ nl @ nl
           @ ''#define macro MAIN() = takes(0) returns (0) {'' @ nl @ ''  '' @ nl @ ''  stop'' @ nl @ ''}'')
          ''cache/tempMacro'' ''/w'',
        DeployContract ''0x60008060093d393df3'' (sessionConfig sampleTools ''/w'' stopMacro sampleOptions) ''/w'',
        WriteHevmCommand
          (hevmCommand sampleTools ''0x00'' (sessionConfig sampleTools ''/w'' stopMacro sampleOptions) ''/w'')
          ''cache/hevmtemp'' ''/w'',
        RunInUserTerminal ''hevm-session'']
   \<and> fst (viewer_startMacroDebugger sampleHost sampleTools ''/w'' ''src/Main.huff'' [] stopMacro []
          (sampleOptions\<lparr>stateChecked := True\<rparr>))
     = [CompileFromFile
          (nl @ nl @ ''#define macro MAIN() = takes(0) returns (0) {'' @ nl @ ''  '' @ nl @ ''  stop'' @ nl @ ''}'')
          ''cache/tempMacro'' ''/w'',
        WriteFileSync ''/w/cache/hevmtemp''
          (viewer_deployCommand ''0x60008060093d393df3''
             (viewer_sessionConfig sampleTools stopMacro (sampleOptions\<lparr>stateChecked := True\<rparr>)) ''/w'' False),
        ExecSync ([CHR 0x60] @ ''cat /w/cache/hevmtemp'' @ [CHR 0x60]),
        WriteFileSync ''/w/cache/hevmtemp''
          (viewer_deployCommand ''0x60008060093d393df3''
             (viewer_sessionConfig sampleTools stopMacro (sampleOptions\<lparr>stateChecked := True\<rparr>)) ''/w'' False),
        ExecSync ([CHR 0x60] @ ''cat /w/cache/hevmtemp'' @ [CHR 0x60]),
        WriteHevmCommand
          (viewer_command sampleTools ''0xaa''
             (viewer_sessionConfig sampleTools stopMacro (sampleOptions\<lparr>stateChecked := True\<rparr>)) ''/w'')
          ''cache/hevmtemp'' ''/w'',
        CreateTerminal ''Huff debug'',
        SendText ([CHR 0x60] @ ''cat /w/cache/hevmtemp'' @ [CHR 0x60]),
        ShowTerminal]"
proof -
  let ?src = "nl @ ''#define macro FOO() = takes(0) returns(0) { 0x00 }'' @ nl @ nl
           @ ''#define macro MAIN() = takes(0) returns (0) {'' @ nl @ ''  '' @ nl @ ''  stop'' @ nl @ ''}''"
  let ?vsrc = "nl @ nl @ ''#define macro MAIN() = takes(0) returns (0) {'' @ nl @ ''  '' @ nl @ ''  stop'' @ nl @ ''}''"
  let ?opts = "sampleOptions\<lparr>stateChecked := True\<rparr>"
  have cwd: "workingDirectory sampleTools ''/w'' = ''/w''"
    by code_simp
  have src: "fst (compilableMacro sampleHost ''/w'' stopMacro [] ''src/Main.huff'' sampleImports
                 (sessionConfig sampleTools ''/w'' stopMacro sampleOptions)) = Inr ?src"
    by code_simp
  have vsrc: "fst (viewer_compilableMacro sampleHost ''/w'' stopMacro [] ''src/Main.huff'' []
                 (viewer_sessionConfig sampleTools stopMacro ?opts)) = Inr ?vsrc"
    by code_simp
  have files: "tempMacroFilename (sessionConfig sampleTools ''/w'' stopMacro sampleOptions) = ''cache/tempMacro''"
      "tempHevmCommandFilename (sessionConfig sampleTools ''/w'' stopMacro sampleOptions) = ''cache/hevmtemp''"
      "tempMacroFilename (viewer_sessionConfig sampleTools stopMacro ?opts) = ''cache/tempMacro''"
      "tempHevmCommandFilename (viewer_sessionConfig sampleTools stopMacro ?opts) = ''cache/hevmtemp''"
      "stateChecked ?opts"
    by (simp_all add: sessionConfig_def viewer_sessionConfig_def sampleOptions_def)
  have tools: "commandExists sampleTools ''hevm''"
      "\<And>s f c. compileFromFile sampleTools s f c = Inr ''0x60008060093d393df3''"
      "\<And>b c d. deployContract sampleTools b c d = Inr ''0x00''"
      "\<And>a b c. writeHevmCommand sampleTools a b c = None"
      "\<And>a b. craftTerminalCommand sampleTools a b = ''hevm-session''"
      "\<And>a. runInUserTerminal sampleTools a = None"
      "\<And>a b. writeFileSync sampleTools a b = None"
      "\<And>c. execSync sampleTools 0 c = Inr ''0xaa''"
      "\<And>c. \<not> isl (execSync sampleTools 1 c)"
    by (simp_all add: sampleTools_def)
  note w = debugged_code_is_first_deployment
      [where t = sampleTools and h = sampleHost and sourceDirectory = "''/w''"
         and currentFile = "''src/Main.huff''" and macro = stopMacro and argsObject = "[]"
         and bytecode = "''0x60008060093d393df3''"]
  from w [where directives = sampleImports and options = sampleOptions and source = ?src
            and runtimeBytecode = "''0x00''", THEN conjunct2, THEN conjunct1]
       cwd src files tools
  have 1: "fst (startMacroDebugger sampleHost sampleTools ''/w'' ''src/Main.huff'' sampleImports stopMacro []
          sampleOptions)
     = [CompileFromFile ?src ''cache/tempMacro'' ''/w'',
        DeployContract ''0x60008060093d393df3'' (sessionConfig sampleTools ''/w'' stopMacro sampleOptions) ''/w'',
        WriteHevmCommand
          (hevmCommand sampleTools ''0x00'' (sessionConfig sampleTools ''/w'' stopMacro sampleOptions) ''/w'')
          ''cache/hevmtemp'' ''/w'',
        RunInUserTerminal ''hevm-session'']"
    by simp
  from w [where directives = "[]" and options = ?opts and source = ?vsrc
            and runtimeBytecode = "''0xaa''", THEN conjunct2, THEN conjunct2]
       vsrc files tools
  have 2: "fst (viewer_startMacroDebugger sampleHost sampleTools ''/w'' ''src/Main.huff'' [] stopMacro [] ?opts)
     = [CompileFromFile ?vsrc ''cache/tempMacro'' ''/w'',
        WriteFileSync ''/w/cache/hevmtemp''
          (viewer_deployCommand ''0x60008060093d393df3''
             (viewer_sessionConfig sampleTools stopMacro ?opts) ''/w'' False),
        ExecSync ([CHR 0x60] @ ''cat /w/cache/hevmtemp'' @ [CHR 0x60]),
        WriteFileSync ''/w/cache/hevmtemp''
          (viewer_deployCommand ''0x60008060093d393df3''
             (viewer_sessionConfig sampleTools stopMacro ?opts) ''/w'' False),
        ExecSync ([CHR 0x60] @ ''cat /w/cache/hevmtemp'' @ [CHR 0x60]),
        WriteHevmCommand
          (viewer_command sampleTools ''0xaa'' (viewer_sessionConfig sampleTools stopMacro ?opts) ''/w'')
          ''cache/hevmtemp'' ''/w'',
        CreateTerminal ''Huff debug'',
        SendText ([CHR 0x60] @ ''cat /w/cache/hevmtemp'' @ [CHR 0x60]),
        ShowTerminal]"
    by simp
  from 1 2 show ?thesis by (rule conjI)
qed

text \<open>
  The claim as stated fails on both orchestrators. With storage overrides and without the
  state flag, a session of either one runs the simulator in create mode once, not twice.
  With the state flag, the viewer's session runs it twice, and the command it then writes
  debugs \<open>0xaa\<close>, the output of the first run, not \<open>0xbb\<close>, the output of the second:
  the run that yields the debugged code comes first.
\<close>

theorem constructor_pass_counterexample:
  "length (filter deploys (fst (startMacroDebugger sampleHost sampleTools ''/w'' ''src/Main.huff''
      sampleImports stopMacro []
      (sampleOptions\<lparr>storageChecked := True,
                      stateValues := [\<lparr>stateKey = ''0x00'', stateVal = ''0x2a''\<rparr>]\<rparr>)))) = 1
   \<and> length (filter deploys (fst (viewer_startMacroDebugger sampleHost sampleTools ''/w'' ''src/Main.huff''
      [] stopMacro []
      (sampleOptions\<lparr>storageChecked := True,
                      stateValues := [\<lparr>stateKey = ''0x00'', stateVal = ''0x2a''\<rparr>]\<rparr>)))) = 1
   \<and> execSync sampleTools 0 ([CHR 0x60] @ ''cat /w/cache/hevmtemp'' @ [CHR 0x60]) = Inr ''0xaa''
   \<and> execSync sampleTools 1 ([CHR 0x60] @ ''cat /w/cache/hevmtemp'' @ [CHR 0x60]) = Inr ''0xbb''
   \<and> filter (\<lambda>ev. deploys ev \<or> launches ev)
        (fst (viewer_startMacroDebugger sampleHost sampleTools ''/w'' ''src/Main.huff''
           [] stopMacro [] (sampleOptions\<lparr>stateChecked := True\<rparr>)))
      = [ExecSync ([CHR 0x60] @ ''cat /w/cache/hevmtemp'' @ [CHR 0x60]),
         ExecSync ([CHR 0x60] @ ''cat /w/cache/hevmtemp'' @ [CHR 0x60]),
         WriteHevmCommand
           (''hevm exec     --code 0xaa     --address c5d2460186f7233c927e7db2dcc703c0e500b653ca''
            @ ''     --caller 0x0000000000000000000000000000000000000069     --gas 0xffffffff''
            @ ''     --state /w/cache/huff_debug_hevm_state          --debug'')
           ''cache/hevmtemp'' ''/w'',
         CreateTerminal ''Huff debug'',
         SendText ([CHR 0x60] @ ''cat /w/cache/hevmtemp'' @ [CHR 0x60]),
         ShowTerminal]"
  by code_simp

section \<open>The debug command of a bare session\<close>





section \<open>More properties of the matcher\<close>

lemma run_lits:
  "run (map (\<lambda>a. R (Chr (Lit a))) lit @ k) s c
     = (if prefix lit s then run k (drop (length lit) s) c else None)"
proof (induction lit arbitrary: s)
  case Nil
  show ?case by simp
next
  case (Cons a lit)
  show ?case
    by (cases s) (simp_all add: run.simps(2) Cons)
qed

lemma run_str:
  "run (R (str lit) # k) s c = (if prefix lit s then run k (drop (length lit) s) c else None)"
  by (simp add: str_def run.simps(3) run_lits comp_def)

lemma run_lazy_ahead:
  "run [R (LazyStar (Chr AnyChar)), R (Ahead (Chr (Lit a))), Close n s0] s c = Some (rest, c')
     \<Longrightarrow> prefix [a] rest"
proof (induction s)
  case Nil
  then show ?case
    by (simp add: run.simps split: option.splits)
next
  case (Cons x xs)
  show ?case
  proof (cases "x = a")
    case True
    with Cons.prems show ?thesis
      by (auto simp: run.simps(1,2,6,9,11))
  next
    case False
    with Cons show ?thesis
      by (simp add: run.simps(1,2,6,9,10))
  qed
qed

lemma last_item:
  "i # k0 = k @ [R (bodyGroup n a)] \<Longrightarrow> i \<noteq> R (bodyGroup n a) \<Longrightarrow>
     \<exists>k1. k = i # k1 \<and> k0 = k1 @ [R (bodyGroup n a)]"
  by (cases k) auto

lemma run_ends_ahead:
  "run K s c = Some (rest, c') \<Longrightarrow> K = k @ [R (bodyGroup n a)] \<Longrightarrow> prefix [a] rest"
proof (induction K s c arbitrary: k rest c' rule: run.induct)
  case (1 s c)
  then show ?case by simp
next
  case (2 p k0 s c)
  from last_item [OF "2.prems"(2)] obtain k1 where k0: "k0 = k1 @ [R (bodyGroup n a)]"
    by (auto simp: bodyGroup_def)
  show ?case
  proof (cases s)
    case Nil
    with "2.prems"(1) show ?thesis by (simp add: run.simps(2))
  next
    case (Cons x xs)
    with "2.prems"(1) have m: "cmatch p x" and r: "run k0 xs c = Some (rest, c')"
      by (simp_all add: run.simps(2) split: if_splits)
    from "2.IH" [OF Cons m r k0] show ?thesis .
  qed
next
  case (3 rs k0 s c)
  from last_item [OF "3.prems"(2)] obtain k1 where k0: "k0 = k1 @ [R (bodyGroup n a)]"
    by (auto simp: bodyGroup_def)
  from "3.prems"(1) have r: "run (map R rs @ k0) s c = Some (rest, c')"
    by (simp add: run.simps(3))
  have "map R rs @ k0 = (map R rs @ k1) @ [R (bodyGroup n a)]" using k0 by simp
  from "3.IH" [OF r this] show ?case .
next
  case (4 r k0 s c)
  from last_item [OF "4.prems"(2)] obtain k1 where k0: "k0 = k1 @ [R (bodyGroup n a)]"
    by (auto simp: bodyGroup_def)
  have e: "R r # Guard (length s) # k0 = (R r # Guard (length s) # k1) @ [R (bodyGroup n a)]"
    using k0 by simp
  show ?case
  proof (cases "run (R r # Guard (length s) # k0) s (clear (groups r) c)")
    case None
    with "4.prems"(1) have "run k0 s c = Some (rest, c')" by (simp add: run.simps(4))
    from "4.IH"(2) [OF None this k0] show ?thesis .
  next
    case (Some y)
    with "4.prems"(1) have "run (R r # Guard (length s) # k0) s (clear (groups r) c) = Some (rest, c')"
      by (simp add: run.simps(4))
    from "4.IH"(1) [OF this e] show ?thesis .
  qed
next
  case (5 r k0 s c)
  from last_item [OF "5.prems"(2)] obtain k1 where k0: "k0 = k1 @ [R (bodyGroup n a)]"
    by (auto simp: bodyGroup_def)
  have e: "R r # Guard (length s) # R (Star r) # k0
             = (R r # Guard (length s) # R (Star r) # k1) @ [R (bodyGroup n a)]"
    using k0 by simp
  show ?case
  proof (cases "run (R r # Guard (length s) # R (Star r) # k0) s (clear (groups r) c)")
    case None
    with "5.prems"(1) have "run k0 s c = Some (rest, c')" by (simp add: run.simps(5))
    from "5.IH"(2) [OF None this k0] show ?thesis .
  next
    case (Some y)
    with "5.prems"(1) have "run (R r # Guard (length s) # R (Star r) # k0) s (clear (groups r) c) = Some (rest, c')"
      by (simp add: run.simps(5))
    from "5.IH"(1) [OF this e] show ?thesis .
  qed
next
  case (6 r k0 s c)
  from last_item [OF "6.prems"(2)] obtain k1 where k0: "k0 = k1 @ [R (bodyGroup n a)]"
    by (auto simp: bodyGroup_def)
  have e: "R r # Guard (length s) # R (LazyStar r) # k0
             = (R r # Guard (length s) # R (LazyStar r) # k1) @ [R (bodyGroup n a)]"
    using k0 by simp
  show ?case
  proof (cases "run k0 s c")
    case None
    with "6.prems"(1) have "run (R r # Guard (length s) # R (LazyStar r) # k0) s (clear (groups r) c) = Some (rest, c')"
      by (simp add: run.simps(6))
    from "6.IH"(2) [OF None this e] show ?thesis .
  next
    case (Some y)
    with "6.prems"(1) have "run k0 s c = Some (rest, c')" by (simp add: run.simps(6))
    from "6.IH"(1) [OF this k0] show ?thesis .
  qed
next
  case (7 r k0 s c)
  from last_item [OF "7.prems"(2)] obtain k1 where k0: "k0 = k1 @ [R (bodyGroup n a)]"
    by (auto simp: bodyGroup_def)
  have e: "R r # R (Star r) # k0 = (R r # R (Star r) # k1) @ [R (bodyGroup n a)]"
    using k0 by simp
  from "7.prems"(1) have "run (R r # R (Star r) # k0) s (clear (groups r) c) = Some (rest, c')"
    by (simp add: run.simps(7))
  from "7.IH" [OF this e] show ?case .
next
  case (8 m r k0 s c)
  show ?case
  proof (cases k)
    case Nil
    with "8.prems"(2) have "k0 = []" "m = n" "r = Cat [LazyStar (Chr AnyChar), Ahead (Chr (Lit a))]"
      by (simp_all add: bodyGroup_def)
    with "8.prems"(1) show ?thesis
      by (simp add: run.simps(3,8) run_lazy_ahead)
  next
    case (Cons i k')
    with "8.prems"(2) have k0: "k0 = k' @ [R (bodyGroup n a)]" by simp
    then have e: "R r # Close m s # k0 = (R r # Close m s # k') @ [R (bodyGroup n a)]" by simp
    from "8.prems"(1) have "run (R r # Close m s # k0) s c = Some (rest, c')"
      by (simp add: run.simps(8))
    from "8.IH" [OF this e] show ?thesis .
  qed
next
  case (9 r k0 s c)
  from last_item [OF "9.prems"(2)] obtain k1 where k0: "k0 = k1 @ [R (bodyGroup n a)]"
    by (auto simp: bodyGroup_def)
  from "9.prems"(1) obtain s1 c1 where a: "run [R r] s c = Some (s1, c1)"
    and b: "run k0 s c1 = Some (rest, c')"
    by (auto simp: run.simps(9) split: option.splits)
  from "9.IH"(2) [OF a refl b k0] show ?case .
next
  case (10 m k0 s c)
  from last_item [OF "10.prems"(2)] obtain k1 where k0: "k0 = k1 @ [R (bodyGroup n a)]"
    by auto
  from "10.prems"(1) have l: "length s < m" and r: "run k0 s c = Some (rest, c')"
    by (simp_all add: run.simps(10) split: if_splits)
  from "10.IH" [OF l r k0] show ?case .
next
  case (11 m s0 k0 s c)
  from last_item [OF "11.prems"(2)] obtain k1 where k0: "k0 = k1 @ [R (bodyGroup n a)]"
    by auto
  from "11.prems"(1) have r: "run k0 s ((m, take (length s0 - length s) s0) # c) = Some (rest, c')"
    by (simp add: run.simps(11))
  from "11.IH" [OF r k0] show ?case .
qed


lemma search_run:
  "search r s = Some (pre, m, rest, c) \<Longrightarrow> run [R r] (m @ rest) [] = Some (rest, c)"
proof (induction s arbitrary: pre)
  case Nil
  then have r: "run [R r] [] [] = Some (rest, c)" and m: "m = []"
    by (subst (asm) search.simps, auto split: option.splits)+
  from r have "rest = []" by (auto dest: run_suffix)
  with r m show ?case by simp
next
  case (Cons x xs)
  show ?case
  proof (cases "run [R r] (x # xs) []")
    case None
    with Cons.prems obtain pre' where "search r xs = Some (pre', m, rest, c)"
      by (subst (asm) search.simps) auto
    with Cons.IH show ?thesis by simp
  next
    case (Some y)
    obtain rest' c' where y: "y = (rest', c')" by (cases y)
    from Some y have "suffix rest' (x # xs)" by (auto dest: run_suffix)
    then obtain p where p: "x # xs = p @ rest'" by (auto simp: suffix_def)
    from Cons.prems Some y have e: "rest = rest'" "c = c'" "m = take (length (x # xs) - length rest') (x # xs)"
      by (subst (asm) search.simps, simp)+
    from p have "take (length (x # xs) - length rest') (x # xs) = p" by simp
    with e p Some y show ?thesis by simp
  qed
qed

lemma expand_plain: "CHR ''$'' \<notin> set t \<Longrightarrow> expand m pre post ns c t = t"
  by (induction t) auto

lemma replace_all_single:
  assumes "search r s = Some (pre, m, rest, c)" and "m \<noteq> []" and "search r rest = None"
  shows "replace_all r t seen s = pre @ expand m (seen @ pre) rest (groups r) c t @ rest"
proof -
  have "replace_all r t (seen @ pre @ m) rest = rest"
    using assms(3) by (subst replace_all.simps) simp
  with assms(1,2) show ?thesis
    by (subst replace_all.simps) simp
qed

lemma constructorRegex_stack:
  "\<exists>k. constructorRegex = Cat (str ''#define'' # k @ [bodyGroup ''body'' CHR ''}''])"
  by (simp add: constructorRegex_def bodyGroup_def)

lemma constructor_match_shape:
  assumes "run [R constructorRegex] s [] = Some (rest, c)"
  shows "prefix ''#define'' s \<and> length rest + 7 \<le> length s \<and> prefix ''}'' rest"
proof -
  from constructorRegex_stack obtain k where
    k: "constructorRegex = Cat (str ''#define'' # k @ [bodyGroup ''body'' CHR ''}''])"
    by blast
  from assms have r: "run (R (str ''#define'') # map R k @ [R (bodyGroup ''body'' CHR ''}'')]) s [] = Some (rest, c)"
    by (simp add: k run.simps(3))
  then have "prefix [CHR ''}''] rest"
    by (rule run_ends_ahead [where k = "R (str ''#define'') # map R k"]) simp
  moreover from r have i: "(if prefix ''#define'' s
      then run (map R k @ [R (bodyGroup ''body'' CHR ''}'')]) (drop (length ''#define'') s) []
      else None) = Some (rest, c)"
    by (simp only: run_str)
  then have p: "prefix ''#define'' s"
    by (cases "prefix ''#define'' s") simp_all
  with i have "run (map R k @ [R (bodyGroup ''body'' CHR ''}'')]) (drop (length ''#define'') s) []
                 = Some (rest, c)"
    by (simp only: if_True)
  then have "suffix rest (drop (length ''#define'') s)" by (rule run_suffix)
  then have "length rest \<le> length s - 7" by (auto dest: suffix_length_le)
  moreover from p have "7 \<le> length s" by (auto simp: prefix_def)
  ultimately show ?thesis using p by simp
qed

lemma prefix_short:
  assumes "prefix p (m @ r)" and "length p \<le> length m"
  shows "prefix p m"
proof -
  from assms(1) obtain zs where "m @ r = p @ zs"
    by (auto simp: prefix_def)
  then have "take (length p) (m @ r) = take (length p) (p @ zs)"
    by simp
  with assms(2) have "take (length p) m = p"
    by simp
  then show ?thesis
    by (metis take_is_prefix)
qed

lemma constructor_search_shape:
  assumes "search constructorRegex s = Some (pre, m, rest, c)"
  shows "s = pre @ m @ rest \<and> prefix ''#define'' m \<and> prefix ''}'' rest"
proof -
  from assms have s: "s = pre @ m @ rest" by (rule search_split)
  from assms have "run [R constructorRegex] (m @ rest) [] = Some (rest, c)" by (rule search_run)
  then have a: "prefix ''#define'' (m @ rest)" "length rest + 7 \<le> length (m @ rest)" "prefix ''}'' rest"
    by (auto dest: constructor_match_shape)
  then have "7 \<le> length m" by simp
  with a(1) have "prefix ''#define'' m"
    by (auto intro: prefix_short)
  with s a(3) show ?thesis by simp
qed

section \<open>Storage overrides\<close>

lemma overridesText_concat:
  "overridesText sts
     = concat (map (\<lambda>st. stateVal st @ '' '' @ stateKey st @ '' sstore'' @ nl) sts)"
  by (induction sts) simp_all

lemma not_regex_test: "\<not> regex_test r s \<longleftrightarrow> search r s = None"
  by (cases "search r s") (simp_all add: regex_test_def)

text \<open>
  Claim C4, as amended. overrideStorage of debugger/macro/macroDebugger.js writes one line
  \<open>value key sstore\<close> per override, in the order of the overrides. When the constructor
  pattern matches nowhere in the source, these lines are the body of a zero-arity
  constructor appended to the unchanged source. When the pattern matches exactly once and
  neither the matched text nor the lines contain a dollar sign, the lines are inserted at
  the end of the body of that constructor, right before its closing brace; the source is
  otherwise unchanged, so the constructor's signature is not repeated.
\<close>

theorem storage_overrides_injected:
  "overridesText (stateValues config)
     = concat (map (\<lambda>st. stateVal st @ '' '' @ stateKey st @ '' sstore'' @ nl) (stateValues config))
   \<and> (\<not> regex_test constructorRegex macro \<longrightarrow>
        overrideStorage macro config
          = macro @ nl @ ''#define macro CONSTRUCTOR() = takes(0) returns(0) {'' @ nl @ tab
            @ overridesText (stateValues config) @ ''}'')
   \<and> (search constructorRegex macro = Some (pre, found, rest, c)
        \<and> \<not> regex_test constructorRegex rest
        \<and> CHR ''$'' \<notin> set found \<union> set (overridesText (stateValues config))
      \<longrightarrow> macro = pre @ found @ rest \<and> prefix ''#define'' found \<and> prefix ''}'' rest
          \<and> overrideStorage macro config
              = pre @ found @ nl @ tab @ overridesText (stateValues config) @ rest)"
proof (intro conjI impI)
  show "overridesText (stateValues config)
     = concat (map (\<lambda>st. stateVal st @ '' '' @ stateKey st @ '' sstore'' @ nl) (stateValues config))"
    by (rule overridesText_concat)
next
  assume "\<not> regex_test constructorRegex macro"
  then have "search constructorRegex macro = None"
    by (simp only: not_regex_test)
  then show "overrideStorage macro config
          = macro @ nl @ ''#define macro CONSTRUCTOR() = takes(0) returns(0) {'' @ nl @ tab
            @ overridesText (stateValues config) @ ''}''"
    by (simp add: overrideStorage_def)
next
  assume a: "search constructorRegex macro = Some (pre, found, rest, c)
        \<and> \<not> regex_test constructorRegex rest
        \<and> CHR ''$'' \<notin> set found \<union> set (overridesText (stateValues config))"
  then have s: "search constructorRegex macro = Some (pre, found, rest, c)"
    and n: "search constructorRegex rest = None"
    and d: "CHR ''$'' \<notin> set (found @ nl @ tab @ overridesText (stateValues config))"
    by (simp_all add: not_regex_test nl_def tab_def)
  from constructor_search_shape [OF s]
  show "macro = pre @ found @ rest" and p: "prefix ''#define'' found" and "prefix ''}'' rest"
    by simp_all
  from p have "found \<noteq> []" by auto
  from replace_all_single [OF s this n] expand_plain [OF d] s
  show "overrideStorage macro config
              = pre @ found @ nl @ tab @ overridesText (stateValues config) @ rest"
    by (simp add: overrideStorage_def)
qed

theorem storage_overrides_injected_witness:
  "search constructorRegex withConstructor
     = Some ([], ''#define macro CONSTRUCTOR() = takes(0) returns (0) {'' @ nl @ ''  0x01 0x00 sstore'' @ nl,
             ''}'' @ nl @ ''#define macro MAIN() = takes(0) returns (0) {'' @ nl @ ''  stop'' @ nl @ ''}'',
             [(''body'', nl @ ''  0x01 0x00 sstore'' @ nl), (''returns'', ''0''), (''takes'', ''0''),
              (''args'', [])])
   \<and> overrideStorage withConstructor twoOverrides
     = ''#define macro CONSTRUCTOR() = takes(0) returns (0) {'' @ nl @ ''  0x01 0x00 sstore'' @ nl
       @ nl @ tab @ ''0x2a 0x00 sstore'' @ nl @ ''0x2b 0x01 sstore'' @ nl
       @ ''}'' @ nl @ ''#define macro MAIN() = takes(0) returns (0) {'' @ nl @ ''  stop'' @ nl @ ''}''
   \<and> \<not> regex_test constructorRegex ''#define macro MAIN() = takes(0) returns (0) { stop }''
   \<and> overrideStorage ''#define macro MAIN() = takes(0) returns (0) { stop }'' twoOverrides
     = ''#define macro MAIN() = takes(0) returns (0) { stop }'' @ nl
       @ ''#define macro CONSTRUCTOR() = takes(0) returns(0) {'' @ nl @ tab
       @ ''0x2a 0x00 sstore'' @ nl @ ''0x2b 0x01 sstore'' @ nl @ ''}''"
proof -
  let ?found = "''#define macro CONSTRUCTOR() = takes(0) returns (0) {'' @ nl @ ''  0x01 0x00 sstore'' @ nl"
  let ?rest = "''}'' @ nl @ ''#define macro MAIN() = takes(0) returns (0) {'' @ nl @ ''  stop'' @ nl @ ''}''"
  let ?c = "[(''body'', nl @ ''  0x01 0x00 sstore'' @ nl), (''returns'', ''0''), (''takes'', ''0''),
              (''args'', [])]"
  have s: "search constructorRegex withConstructor = Some ([], ?found, ?rest, ?c)"
    by code_simp
  have n: "\<not> regex_test constructorRegex ?rest"
    by code_simp
  have o: "overridesText (stateValues twoOverrides) = ''0x2a 0x00 sstore'' @ nl @ ''0x2b 0x01 sstore'' @ nl"
    by code_simp
  have d: "CHR ''$'' \<notin> set ?found \<union> set (overridesText (stateValues twoOverrides))"
    unfolding o by (simp add: nl_def)
  have m: "\<not> regex_test constructorRegex ''#define macro MAIN() = takes(0) returns (0) { stop }''"
    by code_simp
  note w = storage_overrides_injected [where config = twoOverrides]
  from w [where macro = withConstructor and pre = "[]" and found = ?found and rest = ?rest and c = ?c,
          THEN conjunct2, THEN conjunct2] s n d
  have 1: "overrideStorage withConstructor twoOverrides
             = [] @ ?found @ nl @ tab @ overridesText (stateValues twoOverrides) @ ?rest"
    by blast
  from w [where macro = "''#define macro MAIN() = takes(0) returns (0) { stop }''",
          THEN conjunct2, THEN conjunct1] m
  have 2: "overrideStorage ''#define macro MAIN() = takes(0) returns (0) { stop }'' twoOverrides
     = ''#define macro MAIN() = takes(0) returns (0) { stop }'' @ nl
       @ ''#define macro CONSTRUCTOR() = takes(0) returns(0) {'' @ nl @ tab
       @ overridesText (stateValues twoOverrides) @ ''}''"
    by blast
  from s 1 2 m show ?thesis
    unfolding o by simp
qed

text \<open>
  The claim as stated fails in three ways. overrideStorage of viewer/macroDebugger.js
  appends a new constructor also when the source has one. In the debugger's version every
  match of the pattern is replaced by the first match and the overrides, so two
  constructors receive the lines twice; and the replacement is read as a template, so an
  override value \<open>$&\<close> is expanded to the matched text.
\<close>

theorem storage_overrides_counterexample:
  "regex_test constructorRegex withConstructor
   \<and> viewer_overrideStorage withConstructor twoOverrides
     = withConstructor @ nl @ ''#define macro CONSTRUCTOR() = takes(0) returns(0) {'' @ nl
       @ ''0x2a 0x00 sstore'' @ nl @ ''0x2b 0x01 sstore'' @ nl @ ''}''
   \<and> overrideStorage
        (withConstructor @ nl @ ''#define macro CONSTRUCTOR() = takes(1) returns (1) { pop }'') twoOverrides
     = ''#define macro CONSTRUCTOR() = takes(0) returns (0) {'' @ nl @ ''  0x01 0x00 sstore'' @ nl
       @ nl @ tab @ ''0x2a 0x00 sstore'' @ nl @ ''0x2b 0x01 sstore'' @ nl
       @ ''}'' @ nl @ ''#define macro MAIN() = takes(0) returns (0) {'' @ nl @ ''  stop'' @ nl @ ''}'' @ nl
       @ ''#define macro CONSTRUCTOR() = takes(0) returns (0) {'' @ nl @ ''  0x01 0x00 sstore'' @ nl
       @ nl @ tab @ ''0x2a 0x00 sstore'' @ nl @ ''0x2b 0x01 sstore'' @ nl
       @ ''}''
   \<and> overrideStorage withConstructor
        (sampleOptions\<lparr>stateValues := [\<lparr>stateKey = ''0x00'', stateVal = ''$&''\<rparr>]\<rparr>)
     = ''#define macro CONSTRUCTOR() = takes(0) returns (0) {'' @ nl @ ''  0x01 0x00 sstore'' @ nl
       @ nl @ tab
       @ ''#define macro CONSTRUCTOR() = takes(0) returns (0) {'' @ nl @ ''  0x01 0x00 sstore'' @ nl
       @ '' 0x00 sstore'' @ nl
       @ ''}'' @ nl @ ''#define macro MAIN() = takes(0) returns (0) {'' @ nl @ ''  stop'' @ nl @ ''}''"
  by code_simp

section \<open>The entry point of the flattened text\<close>


















subsection \<open>Headings\<close>







lemma quiet_append: "quiet (u @ v) s \<longleftrightarrow> quiet u (v @ s) \<and> quiet v s"
  by (induction u) auto











subsection \<open>What the two replacements remove from a file\<close>



























subsection \<open>The text returned\<close>















section \<open>The derived contract address\<close>

text \<open>
  Claim C1. The claim asks for addresses that differ whenever the macro texts differ, and
  for an address of 20 bytes. Both orchestrators hash \<open>macro.toString()\<close>, and the macro is
  an object: two macro objects whose bodies differ in one character have the same string
  form and get the same address, also under an injective stand-in for the hash; and
  \<open>slice(0, 42)\<close> keeps 42 hexadecimal digits of a digest of 64, which are 21 bytes.
\<close>

theorem derived_address_collision:
  "body \<lparr>body = ''0x01'', takes = 0, returns = 1\<rparr> \<noteq> body \<lparr>body = ''0x02'', takes = 0, returns = 1\<rparr>
   \<and> objectToString \<lparr>body = ''0x01'', takes = 0, returns = 1\<rparr>
     = objectToString \<lparr>body = ''0x02'', takes = 0, returns = 1\<rparr>
   \<and> hevmContractAddress
       (sessionConfig sampleTools ''/w'' \<lparr>body = ''0x01'', takes = 0, returns = 1\<rparr> sampleOptions)
     = hevmContractAddress
       (sessionConfig sampleTools ''/w'' \<lparr>body = ''0x02'', takes = 0, returns = 1\<rparr> sampleOptions)
   \<and> hevmContractAddress
       (sessionConfig (sampleTools\<lparr>keccak256 := (\<lambda>bytes. bytes)\<rparr>) ''/w''
          \<lparr>body = ''0x01'', takes = 0, returns = 1\<rparr> sampleOptions)
     = hevmContractAddress
       (sessionConfig (sampleTools\<lparr>keccak256 := (\<lambda>bytes. bytes)\<rparr>) ''/w''
          \<lparr>body = ''0x02'', takes = 0, returns = 1\<rparr> sampleOptions)
   \<and> hevmContractAddress
       (viewer_sessionConfig sampleTools \<lparr>body = ''0x01'', takes = 0, returns = 1\<rparr> sampleOptions)
     = hevmContractAddress
       (viewer_sessionConfig sampleTools \<lparr>body = ''0x02'', takes = 0, returns = 1\<rparr> sampleOptions)
   \<and> length (keccak256 sampleTools (objectToString stopMacro)) = 64
   \<and> length (hevmContractAddress (sessionConfig sampleTools ''/w'' stopMacro sampleOptions)) = 42"
  by (simp add: sessionConfig_def viewer_sessionConfig_def deriveAddress_def objectToString_def
      sampleTools_def)

end
